theory Spec2Isabelle
  imports Complex_Main
begin

section \<open>The persisted store and JavaScript truthiness\<close>

text \<open>
  The hook \<open>useProgressSync\<close> of \<open>use-progress-sync.tsx\<close> keeps its durable data in the
  browser's \<open>localStorage\<close>: a map from string keys to string values.
  \<open>getItem\<close> is application of the map, \<open>setItem\<close> is a map update.
\<close>

type_synonym storage = "string \<rightharpoonup> string"

text \<open>
  \<open>!v\<close> for a value of type \<open>string | null\<close>: \<open>null\<close> and the empty string are falsy,
  every other string is truthy.
\<close>

definition falsy :: "string option \<Rightarrow> bool" where
  "falsy v = (case v of None \<Rightarrow> True | Some s \<Rightarrow> s = [])"

section \<open>Identity store\<close>

definition adjectives :: "string list" where
  "adjectives = [''Swift'', ''Clever'', ''Bright'', ''Keen'', ''Sharp'', ''Quick'', ''Bold'',
     ''Calm'', ''Wise'', ''Agile'', ''Smart'', ''Brave'', ''Cool'', ''Epic'', ''Fast'', ''Great'']"

definition nouns :: "string list" where
  "nouns = [''Panda'', ''Tiger'', ''Eagle'', ''Wolf'', ''Fox'', ''Bear'', ''Lion'', ''Hawk'',
     ''Owl'', ''Falcon'', ''Lynx'', ''Jaguar'', ''Panther'', ''Dragon'', ''Phoenix'', ''Raven'']"

text \<open>Indexing a JavaScript array: an index past the end reads \<open>undefined\<close>, which a
  template literal prints as the text \<open>undefined\<close>.\<close>

definition pick :: "string list \<Rightarrow> nat \<Rightarrow> string" where
  "pick xs i = (if i < length xs then xs ! i else ''undefined'')"

definition digit_char :: "nat \<Rightarrow> char" where
  "digit_char d = ''0123456789'' ! d"

text \<open>The decimal text of a non-negative integer, as a template literal prints it.\<close>

fun decimal :: "nat \<Rightarrow> string" where
  "decimal n = (if n < 10 then [digit_char n] else decimal (n div 10) @ [digit_char (n mod 10)])"

declare decimal.simps [simp del]

text \<open>
  \<open>generateUsername\<close>. The three calls of \<open>Math.random\<close> are inputs of the model, each
  already floored as the source floors it: \<open>i = floor (random * 16)\<close>,
  \<open>j = floor (random * 16)\<close> and \<open>k = floor (random * 999)\<close>.
\<close>

definition generateUsername :: "nat \<Rightarrow> nat \<Rightarrow> nat \<Rightarrow> string" where
  "generateUsername i j k =
     (let adj = pick adjectives i;
          noun = pick nouns j;
          num = k + 1
      in adj @ noun @ decimal num)"

text \<open>
  \<open>getUserId\<close>. \<open>window\<close> says whether \<open>typeof window\<close> is defined (false while rendering on
  the server); \<open>now\<close> is the decimal text of \<open>Date.now()\<close> and \<open>rnd\<close> the text
  \<open>Math.random().toString(36).substr(2, 9)\<close>. The result is the returned id (\<open>None\<close> for
  \<open>null\<close>) and the store after the call.
\<close>

definition getUserId :: "bool \<Rightarrow> string \<Rightarrow> string \<Rightarrow> storage \<Rightarrow> string option \<times> storage" where
  "getUserId window now rnd st =
     (if \<not> window then (None, st)
      else let userId = st ''progress-user-id'' in
        if falsy userId
        then (let userId' = ''user_'' @ now @ ''_'' @ rnd
              in (Some userId', st(''progress-user-id'' \<mapsto> userId')))
        else (userId, st))"

text \<open>\<open>getUsername\<close>, with the three random draws of \<open>generateUsername\<close> as inputs.\<close>

definition getUsername :: "bool \<Rightarrow> nat \<Rightarrow> nat \<Rightarrow> nat \<Rightarrow> storage \<Rightarrow> string \<times> storage" where
  "getUsername window i j k st =
     (if \<not> window then ([], st)
      else case st ''progress-username'' of
        None \<Rightarrow> (let username' = generateUsername i j k
                 in (username', st(''progress-username'' \<mapsto> username')))
      | Some username' \<Rightarrow>
          if username' = []
          then (let username'' = generateUsername i j k
                in (username'', st(''progress-username'' \<mapsto> username'')))
          else (username', st))"

section \<open>Data of the hook\<close>

record LeaderboardEntry =
  userId :: string
  username :: string
  completed :: int
  total_files :: int
  percentage :: rat
  lastUpdate :: string

record ProgressUpdate =
  pu_courseId :: string
  pu_fileKey :: string
  pu_isComplete :: bool

text \<open>\<open>StudyItem\<close> of \<open>study-cart-provider.tsx\<close>; the two linkage fields are optional.\<close>

record StudyItem =
  item_id :: string
  url :: string
  title :: string
  courseName :: string
  unitNumber :: int
  courseId :: "string option"
  fileKey :: "string option"

text \<open>The \<open>studyItems\<close> object of a sync payload: its own properties, each key once, in
  the order of their first assignment. (A JavaScript object lists keys that look like
  array indices before the others; the list does not, and the statements about it below
  read it through \<open>map_of\<close> only.)\<close>

type_synonym study_items = "(string \<times> string list) list"

text \<open>The messages handed to \<open>WebSocket.send\<close>; \<open>'p\<close> is the parsed progress record, which the
  hook passes through without looking inside.\<close>

datatype 'p client_msg =
    SetUsername string
  | SyncFullProgress 'p study_items string
  | RequestLeaderboard string
  | SyncStudyItems string "string list"
  | ProgressUpdateMsg string string bool string

text \<open>What \<open>ws.onmessage\<close> reads of a parsed server message: \<open>data.type\<close>, \<open>data.courseId\<close>
  (absent on messages that carry none) and \<open>data.leaderboard\<close>.\<close>

record server_data =
  sd_type :: string
  sd_courseId :: "string option"
  sd_leaderboard :: "LeaderboardEntry list"

text \<open>
  \<open>JSON.parse\<close> belongs to the platform and is an input of the model. Each use is
  taken together with the shape the handler goes on to read, and \<open>None\<close> stands for
  every way the enclosing \<open>try\<close> block can be left by an exception from that value:
  a text that is not JSON, a cart that is not an array (\<open>forEach\<close> is then not a function), a
  message that is \<open>null\<close> (reading \<open>data.type\<close> then throws).
\<close>

record 'p json_port =
  parse_progress :: "string \<Rightarrow> 'p option"
  parse_cart :: "string \<Rightarrow> StudyItem list option"
  parse_data :: "string \<Rightarrow> server_data option"

datatype ready_state = CONNECTING | OPEN | CLOSING | CLOSED

text \<open>The values a call of \<open>connect\<close> and the handlers it installs have captured
  (the dependency list \<open>[userId, courseId, username]\<close>).\<close>

record closure =
  cl_userId :: "string option"
  cl_courseId :: string
  cl_username :: string

record socket =
  readyState :: ready_state
  handlers :: closure

text \<open>A pending \<open>setTimeout\<close> made by \<open>ws.onclose\<close>: the delay in milliseconds and the
  \<open>connect\<close> it will call.\<close>

datatype timer = ReconnectTimer nat closure

datatype log_line = Log string | Error string

text \<open>
  The state of one mounted hook. \<open>cur_courseId\<close> is the argument \<open>courseId\<close> of the latest
  render, the course being displayed; \<open>cur_username\<close> and \<open>cur_userId\<close> are the React state
  of that name. \<open>timers\<close> are the pending timeouts, oldest first, and \<open>timerIds\<close> the ids
  \<open>setTimeout\<close> returned for them, in the same order; \<open>reconnectTimeoutRef\<close> holds the id
  that \<open>ws.onclose\<close> stored last (browser ids are positive, so a stored id is truthy).
\<close>

record 'p hook_state =
  hasWindow :: bool
  cur_courseId :: string
  localStorage :: storage
  leaderboard :: "LeaderboardEntry list"
  isConnected :: bool
  cur_username :: string
  cur_userId :: "string option"
  wsRef :: "socket option"
  reconnectTimeoutRef :: "nat option"
  pendingUpdatesRef :: "ProgressUpdate list"
  timers :: "timer list"
  timerIds :: "nat list"
  nextTimerId :: nat
  sent :: "'p client_msg list"
  console :: "log_line list"

definition initial_state :: "bool \<Rightarrow> string \<Rightarrow> storage \<Rightarrow> 'p hook_state" where
  "initial_state window cid st =
     \<lparr> hasWindow = window, cur_courseId = cid, localStorage = st, leaderboard = [],
       isConnected = False, cur_username = [], cur_userId = None, wsRef = None,
       reconnectTimeoutRef = None, pendingUpdatesRef = [], timers = [], timerIds = [],
       nextTimerId = 1, sent = [], console = [] \<rparr>"

text \<open>The values that the \<open>connect\<close> of the latest render captures.\<close>

definition current_closure :: "'p hook_state \<Rightarrow> closure" where
  "current_closure s =
     \<lparr> cl_userId = cur_userId s, cl_courseId = cur_courseId s, cl_username = cur_username s \<rparr>"

text \<open>The guard \<open>wsRef.current && wsRef.current.readyState === WebSocket.OPEN\<close>.\<close>

definition ws_open :: "'p hook_state \<Rightarrow> bool" where
  "ws_open s = (case wsRef s of None \<Rightarrow> False | Some ws \<Rightarrow> readyState ws = OPEN)"

definition ws_send :: "'p client_msg \<Rightarrow> 'p hook_state \<Rightarrow> 'p hook_state" where
  "ws_send m s = s\<lparr>sent := sent s @ [m]\<rparr>"

definition console_log :: "string \<Rightarrow> 'p hook_state \<Rightarrow> 'p hook_state" where
  "console_log t s = s\<lparr>console := console s @ [Log t]\<rparr>"

definition console_error :: "string \<Rightarrow> 'p hook_state \<Rightarrow> 'p hook_state" where
  "console_error t s = s\<lparr>console := console s @ [Error t]\<rparr>"

text \<open>The effect that initialises \<open>userId\<close> and \<open>username\<close> after the first render.\<close>

definition init_identity ::
  "string \<Rightarrow> string \<Rightarrow> nat \<Rightarrow> nat \<Rightarrow> nat \<Rightarrow> 'p hook_state \<Rightarrow> 'p hook_state" where
  "init_identity now rnd i j k s =
     (case getUserId (hasWindow s) now rnd (localStorage s) of (uid, st1) \<Rightarrow>
      case getUsername (hasWindow s) i j k st1 of (name, st2) \<Rightarrow>
        s\<lparr>localStorage := st2, cur_userId := uid, cur_username := name\<rparr>)"

section \<open>Changing the username\<close>

text \<open>The code units that \<open>String.prototype.trim\<close> strips, among those a \<open>char\<close> can hold:
  tab, line feed, vertical tab, form feed, carriage return, space and no-break space.\<close>

definition is_whitespace :: "char \<Rightarrow> bool" where
  "is_whitespace c = (of_char c \<in> {9, 10, 11, 12, 13, 32, 160 :: nat})"

definition trim :: "string \<Rightarrow> string" where
  "trim s = rev (dropWhile is_whitespace (rev (dropWhile is_whitespace s)))"

definition updateUsername :: "string \<Rightarrow> 'p hook_state \<Rightarrow> 'p hook_state" where
  "updateUsername newUsername s =
     (if trim newUsername = [] then s
      else let s1 = s\<lparr>cur_username := newUsername\<rparr>;
               s2 = s1\<lparr>localStorage := (localStorage s1)(''progress-username'' \<mapsto> newUsername)\<rparr>
           in if ws_open s2 then ws_send (SetUsername newUsername) s2 else s2)"

section \<open>The rank of the current user\<close>

text \<open>\<open>Array.prototype.findIndex\<close>: the index of the first element satisfying the
  predicate, \<open>-1\<close> when there is none.\<close>

fun findIndex_from :: "('a \<Rightarrow> bool) \<Rightarrow> int \<Rightarrow> 'a list \<Rightarrow> int" where
  "findIndex_from p i [] = -1"
| "findIndex_from p i (x # xs) = (if p x then i else findIndex_from p (i + 1) xs)"

definition findIndex :: "('a \<Rightarrow> bool) \<Rightarrow> 'a list \<Rightarrow> int" where
  "findIndex p xs = findIndex_from p 0 xs"

text \<open>The value \<open>currentUserRank\<close> returned by the hook: the local computation followed by
  the filter of the \<open>return\<close> statement.\<close>

definition currentUserRank :: "LeaderboardEntry list \<Rightarrow> string option \<Rightarrow> int option" where
  "currentUserRank lb uid =
     (let rank = (case uid of
                    None \<Rightarrow> None
                  | Some u \<Rightarrow> if u = [] then None
                             else Some (findIndex (\<lambda>entry. userId entry = u) lb + 1))
      in case rank of
           None \<Rightarrow> None
         | Some r \<Rightarrow> if r > 0 then Some r else None)"


section \<open>Building the full-sync payload\<close>

text \<open>
  The object literal \<open>{}\<close> that collects the study items inherits the properties of
  \<open>Object.prototype\<close>; reading one of these names on it gives a function (for \<open>__proto__\<close>
  the prototype object), which is truthy and has no \<open>push\<close>.
\<close>

definition object_prototype_names :: "string list" where
  "object_prototype_names =
     [''constructor'', ''__defineGetter__'', ''__defineSetter__'', ''hasOwnProperty'',
      ''__lookupGetter__'', ''__lookupSetter__'', ''isPrototypeOf'', ''propertyIsEnumerable'',
      ''toString'', ''valueOf'', ''__proto__'', ''toLocaleString'']"

text \<open>Truthiness of \<open>obj[k]\<close>: own properties hold arrays, which are truthy.\<close>

definition property_truthy :: "study_items \<Rightarrow> string \<Rightarrow> bool" where
  "property_truthy obj k = (map_of obj k \<noteq> None \<or> k \<in> set object_prototype_names)"

text \<open>\<open>obj[k] = v\<close>: an own property keeps its place, a new one goes last.\<close>

definition assign_property :: "study_items \<Rightarrow> string \<Rightarrow> string list \<Rightarrow> study_items" where
  "assign_property obj k v =
     (if map_of obj k \<noteq> None then map (\<lambda>(k', v'). if k' = k then (k', v) else (k', v')) obj
      else obj @ [(k, v)])"

text \<open>\<open>obj[k].push(f)\<close>: a \<open>TypeError\<close> (\<open>None\<close>) unless \<open>k\<close> is an own property.\<close>

definition push_property :: "study_items \<Rightarrow> string \<Rightarrow> string \<Rightarrow> study_items option" where
  "push_property obj k f =
     (case map_of obj k of
        None \<Rightarrow> None
      | Some fs \<Rightarrow> Some (map (\<lambda>(k', v'). if k' = k then (k', v' @ [f]) else (k', v')) obj))"

text \<open>\<open>Array.prototype.forEach\<close> with a callback that updates the captured object and
  may throw; a throw ends the loop.\<close>

fun forEach :: "('s \<Rightarrow> 'a \<Rightarrow> 's option) \<Rightarrow> 'a list \<Rightarrow> 's \<Rightarrow> 's option" where
  "forEach f [] acc = Some acc"
| "forEach f (x # xs) acc = (case f acc x of None \<Rightarrow> None | Some acc' \<Rightarrow> forEach f xs acc')"

text \<open>The outcome of one pass through a \<open>try\<close> block that builds the payload: the guard
  \<open>if (storedProgress)\<close> was false, an exception was caught, or the message is ready.\<close>

datatype 'a attempt = NoProgress | Thrown | Payload 'a

subsection \<open>In \<open>ws.onopen\<close>\<close>

definition onopen_item :: "study_items \<Rightarrow> StudyItem \<Rightarrow> study_items option" where
  "onopen_item studyItems item =
     (case courseId item of
        None \<Rightarrow> Some studyItems
      | Some c \<Rightarrow>
          (case fileKey item of
             None \<Rightarrow> Some studyItems
           | Some f \<Rightarrow>
               if c \<noteq> [] \<and> f \<noteq> [] then
                 (let studyItems' = (if \<not> property_truthy studyItems c
                                     then assign_property studyItems c [] else studyItems)
                  in push_property studyItems' c f)
               else Some studyItems))"

definition onopen_payload :: "'p json_port \<Rightarrow> string \<Rightarrow> storage \<Rightarrow> 'p client_msg attempt" where
  "onopen_payload J uname st =
     (let storedProgress = st ''course-progress'';
          storedCart = st ''study-cart''
      in if falsy storedProgress then NoProgress
         else case parse_progress J (the storedProgress) of
           None \<Rightarrow> Thrown
         | Some progress \<Rightarrow>
            (case (if falsy storedCart then Some []
                   else case parse_cart J (the storedCart) of
                          None \<Rightarrow> None
                        | Some cartItems \<Rightarrow> forEach onopen_item cartItems [])
             of None \<Rightarrow> Thrown
              | Some studyItems \<Rightarrow> Payload (SyncFullProgress progress studyItems uname)))"

subsection \<open>In the periodic \<open>syncInterval\<close>\<close>

definition interval_item :: "study_items \<Rightarrow> StudyItem \<Rightarrow> study_items option" where
  "interval_item studyItems item =
     (case courseId item of
        None \<Rightarrow> Some studyItems
      | Some c \<Rightarrow>
          (case fileKey item of
             None \<Rightarrow> Some studyItems
           | Some f \<Rightarrow>
               if c \<noteq> [] \<and> f \<noteq> [] then
                 (let studyItems' = (if \<not> property_truthy studyItems c
                                     then assign_property studyItems c [] else studyItems)
                  in push_property studyItems' c f)
               else Some studyItems))"

definition interval_payload :: "'p json_port \<Rightarrow> string \<Rightarrow> storage \<Rightarrow> 'p client_msg attempt" where
  "interval_payload J uname st =
     (let storedProgress = st ''course-progress'';
          storedCart = st ''study-cart''
      in if falsy storedProgress then NoProgress
         else case parse_progress J (the storedProgress) of
           None \<Rightarrow> Thrown
         | Some progress \<Rightarrow>
            (case (if falsy storedCart then Some []
                   else case parse_cart J (the storedCart) of
                          None \<Rightarrow> None
                        | Some cartItems \<Rightarrow> forEach interval_item cartItems [])
             of None \<Rightarrow> Thrown
              | Some studyItems \<Rightarrow> Payload (SyncFullProgress progress studyItems uname)))"

subsection \<open>In \<open>handleStorageChange\<close>\<close>

definition storage_item :: "study_items \<Rightarrow> StudyItem \<Rightarrow> study_items option" where
  "storage_item studyItems item =
     (case courseId item of
        None \<Rightarrow> Some studyItems
      | Some c \<Rightarrow>
          (case fileKey item of
             None \<Rightarrow> Some studyItems
           | Some f \<Rightarrow>
               if c \<noteq> [] \<and> f \<noteq> [] then
                 (let studyItems' = (if \<not> property_truthy studyItems c
                                     then assign_property studyItems c [] else studyItems)
                  in push_property studyItems' c f)
               else Some studyItems))"

definition storage_payload :: "'p json_port \<Rightarrow> string \<Rightarrow> storage \<Rightarrow> 'p client_msg attempt" where
  "storage_payload J uname st =
     (let storedProgress = st ''course-progress'';
          storedCart = st ''study-cart''
      in if falsy storedProgress then NoProgress
         else case parse_progress J (the storedProgress) of
           None \<Rightarrow> Thrown
         | Some progress \<Rightarrow>
            (case (if falsy storedCart then Some []
                   else case parse_cart J (the storedCart) of
                          None \<Rightarrow> None
                        | Some cartItems \<Rightarrow> forEach storage_item cartItems [])
             of None \<Rightarrow> Thrown
              | Some studyItems \<Rightarrow> Payload (SyncFullProgress progress studyItems uname)))"

subsection \<open>In the \<open>pollInterval\<close>\<close>

definition poll_payload :: "string \<Rightarrow> 'p client_msg" where
  "poll_payload cid = RequestLeaderboard cid"

section \<open>The connection manager\<close>

text \<open>The \<open>try\<close> block of \<open>ws.onopen\<close> that syncs the full progress state.\<close>

definition onopen_sync :: "'p json_port \<Rightarrow> closure \<Rightarrow> 'p hook_state \<Rightarrow> 'p hook_state" where
  "onopen_sync J c s =
     (case onopen_payload J (cl_username c) (localStorage s) of
        NoProgress \<Rightarrow> s
      | Thrown \<Rightarrow> console_error ''Failed to sync progress:'' s
      | Payload m \<Rightarrow> console_log ''Synced full progress state to server'' (ws_send m s))"

text \<open>\<open>ws.onopen\<close>, for the socket whose handlers captured \<open>c\<close>.\<close>

definition ws_onopen :: "'p json_port \<Rightarrow> closure \<Rightarrow> 'p hook_state \<Rightarrow> 'p hook_state" where
  "ws_onopen J c s =
     (let s1 = console_log ''Connected to progress tracking server'' s;
          s2 = s1\<lparr>isConnected := True\<rparr>;
          s3 = onopen_sync J c s2;
          s4 = s3\<lparr>pendingUpdatesRef := []\<rparr>
      in ws_send (RequestLeaderboard (cl_courseId c)) s4)"

definition ws_onmessage :: "'p json_port \<Rightarrow> closure \<Rightarrow> string \<Rightarrow> 'p hook_state \<Rightarrow> 'p hook_state" where
  "ws_onmessage J c event_data s =
     (case parse_data J event_data of
        None \<Rightarrow> console_error ''Error parsing WebSocket message:'' s
      | Some d \<Rightarrow>
          if sd_type d = ''leaderboard_update'' \<and> sd_courseId d = Some (cl_courseId c)
          then s\<lparr>leaderboard := sd_leaderboard d\<rparr>
          else if sd_type d = ''connected'' then console_log ''Server confirmed connection'' s
          else s)"

definition ws_onerror :: "'p hook_state \<Rightarrow> 'p hook_state" where
  "ws_onerror s = console_error ''WebSocket error:'' s"

definition ws_onclose :: "closure \<Rightarrow> 'p hook_state \<Rightarrow> 'p hook_state" where
  "ws_onclose c s =
     (let s1 = console_log ''Disconnected from progress tracking server'' s;
          s2 = s1\<lparr>isConnected := False\<rparr>;
          timeoutId = nextTimerId s2
      in s2\<lparr>timers := timers s2 @ [ReconnectTimer 3000 c],
            timerIds := timerIds s2 @ [timeoutId],
            nextTimerId := timeoutId + 1,
            reconnectTimeoutRef := Some timeoutId\<rparr>)"

text \<open>\<open>connect\<close>. \<open>ctor_ok\<close> says whether \<open>new WebSocket(...)\<close> returns a socket; when it
  throws, the \<open>catch\<close> block runs.\<close>

definition connect :: "bool \<Rightarrow> closure \<Rightarrow> 'p hook_state \<Rightarrow> 'p hook_state" where
  "connect ctor_ok c s =
     (if falsy (cl_userId c) \<or> \<not> hasWindow s then s
      else if ctor_ok then s\<lparr>wsRef := Some \<lparr>readyState = CONNECTING, handlers = c\<rparr>\<rparr>
      else (console_error ''Failed to connect to WebSocket:'' s)\<lparr>isConnected := False\<rparr>)"

text \<open>The callback of the timeout set by \<open>ws.onclose\<close>. All timeouts have the same delay,
  so the oldest pending one fires first.\<close>

definition reconnect_timeout :: "bool \<Rightarrow> 'p hook_state \<Rightarrow> 'p hook_state" where
  "reconnect_timeout ctor_ok s =
     (case timers s of
        [] \<Rightarrow> s
      | ReconnectTimer d c # rest \<Rightarrow>
          connect ctor_ok c
            (console_log ''Attempting to reconnect...''
               (s\<lparr>timers := rest, timerIds := tl (timerIds s)\<rparr>)))"

text \<open>\<open>clearTimeout\<close>: the timeout with that id, if it is still pending, will not fire.\<close>

definition clearTimeout :: "nat \<Rightarrow> 'p hook_state \<Rightarrow> 'p hook_state" where
  "clearTimeout tid s =
     (let keep = filter (\<lambda>(i, t). i \<noteq> tid) (zip (timerIds s) (timers s))
      in s\<lparr>timerIds := map fst keep, timers := map snd keep\<rparr>)"

text \<open>\<open>WebSocket.close()\<close>: a socket that is connecting or open starts to close; its \<open>close\<close>
  event comes later.\<close>

definition close_socket :: "socket \<Rightarrow> socket" where
  "close_socket ws =
     (if readyState ws = CONNECTING \<or> readyState ws = OPEN then ws\<lparr>readyState := CLOSING\<rparr>
      else ws)"

text \<open>The cleanup of the effect that connects on mount.\<close>

definition connection_cleanup :: "'p hook_state \<Rightarrow> 'p hook_state" where
  "connection_cleanup s =
     (let s1 = (case reconnectTimeoutRef s of None \<Rightarrow> s | Some tid \<Rightarrow> clearTimeout tid s)
      in case wsRef s1 of
           None \<Rightarrow> s1
         | Some ws \<Rightarrow> s1\<lparr>wsRef := Some (close_socket ws)\<rparr>)"

text \<open>
  The effect with the dependencies \<open>[userId, connect]\<close>, after a render. \<open>prev\<close> is what the
  \<open>connect\<close> of the render before had captured: \<open>connect\<close> is a new function exactly when
  \<open>userId\<close>, \<open>courseId\<close> or \<open>username\<close> changed, and then the cleanup of the old effect
  runs, followed by the body of the new one. (On the first render \<open>userId\<close> is \<open>null\<close> and
  the body does nothing.)
\<close>

definition connection_effect :: "bool \<Rightarrow> closure \<Rightarrow> 'p hook_state \<Rightarrow> 'p hook_state" where
  "connection_effect ctor_ok prev s =
     (if current_closure s = prev then s
      else let s1 = connection_cleanup s
           in if falsy (cur_userId s1) then s1 else connect ctor_ok (current_closure s1) s1)"

text \<open>The parent renders the hook with the course \<open>cid\<close>.\<close>

definition render_course :: "bool \<Rightarrow> string \<Rightarrow> 'p hook_state \<Rightarrow> 'p hook_state" where
  "render_course ctor_ok cid s =
     connection_effect ctor_ok (current_closure s) (s\<lparr>cur_courseId := cid\<rparr>)"

text \<open>The browser's side of the socket in \<open>wsRef\<close>: it sets \<open>readyState\<close> and then runs the
  handler installed by \<open>connect\<close>.\<close>

definition socket_opened :: "'p json_port \<Rightarrow> 'p hook_state \<Rightarrow> 'p hook_state" where
  "socket_opened J s =
     (case wsRef s of
        None \<Rightarrow> s
      | Some ws \<Rightarrow> ws_onopen J (handlers ws) (s\<lparr>wsRef := Some (ws\<lparr>readyState := OPEN\<rparr>)\<rparr>))"

definition socket_closed :: "'p hook_state \<Rightarrow> 'p hook_state" where
  "socket_closed s =
     (case wsRef s of
        None \<Rightarrow> s
      | Some ws \<Rightarrow> ws_onclose (handlers ws) (s\<lparr>wsRef := Some (ws\<lparr>readyState := CLOSED\<rparr>)\<rparr>))"

text \<open>A message arrives on the open socket in \<open>wsRef\<close>.\<close>

definition socket_message :: "'p json_port \<Rightarrow> string \<Rightarrow> 'p hook_state \<Rightarrow> 'p hook_state" where
  "socket_message J event_data s =
     (case wsRef s of
        None \<Rightarrow> s
      | Some ws \<Rightarrow> if readyState ws = OPEN then ws_onmessage J (handlers ws) event_data s else s)"

section \<open>The reconciler's timers and listeners\<close>

text \<open>A tick of the \<open>pollInterval\<close>. The effect that owns the interval does not install it
  for an empty \<open>courseId\<close>, so no tick happens then.\<close>

definition pollInterval_tick :: "string \<Rightarrow> 'p hook_state \<Rightarrow> 'p hook_state" where
  "pollInterval_tick cid s =
     (if cid = [] then s
      else if ws_open s then ws_send (poll_payload cid) s else s)"

definition syncInterval_tick :: "'p json_port \<Rightarrow> string \<Rightarrow> 'p hook_state \<Rightarrow> 'p hook_state" where
  "syncInterval_tick J uname s =
     (if ws_open s then
        (case interval_payload J uname (localStorage s) of
           NoProgress \<Rightarrow> s
         | Thrown \<Rightarrow> console_error ''Failed to sync progress:'' s
         | Payload m \<Rightarrow> console_log ''Periodic sync completed'' (ws_send m s))
      else s)"

text \<open>\<open>handleStorageChange\<close>; \<open>key\<close> is \<open>e.key\<close>, which is \<open>null\<close> when the store was cleared.\<close>

definition handleStorageChange ::
  "'p json_port \<Rightarrow> string \<Rightarrow> string option \<Rightarrow> 'p hook_state \<Rightarrow> 'p hook_state" where
  "handleStorageChange J uname key s =
     (if key = Some ''course-progress'' \<or> key = Some ''study-cart'' then
        (if ws_open s then
           (case storage_payload J uname (localStorage s) of
              NoProgress \<Rightarrow> s
            | Thrown \<Rightarrow> console_error ''Failed to sync after storage change:'' s
            | Payload m \<Rightarrow> console_log ''Synced after localStorage change'' (ws_send m s))
         else s)
      else s)"

section \<open>The callbacks handed to the caller\<close>

definition sendProgressUpdate ::
  "string \<Rightarrow> string \<Rightarrow> string \<Rightarrow> bool \<Rightarrow> 'p hook_state \<Rightarrow> 'p hook_state" where
  "sendProgressUpdate cid uname fk isComplete s =
     (let update = \<lparr>pu_courseId = cid, pu_fileKey = fk, pu_isComplete = isComplete\<rparr>
      in if ws_open s
         then ws_send (ProgressUpdateMsg (pu_courseId update) (pu_fileKey update)
                         (pu_isComplete update) uname) s
         else s\<lparr>pendingUpdatesRef := pendingUpdatesRef s @ [update]\<rparr>)"

definition requestLeaderboardUpdate :: "string \<Rightarrow> 'p hook_state \<Rightarrow> 'p hook_state" where
  "requestLeaderboardUpdate cid s =
     (if ws_open s \<and> cid \<noteq> [] then ws_send (RequestLeaderboard cid) s else s)"

definition syncStudyItems :: "string \<Rightarrow> string list \<Rightarrow> 'p hook_state \<Rightarrow> 'p hook_state" where
  "syncStudyItems cid fileKeys s =
     (if ws_open s \<and> cid \<noteq> [] then ws_send (SyncStudyItems cid fileKeys) s else s)"

definition syncFullProgress ::
  "string \<Rightarrow> 'p \<Rightarrow> study_items \<Rightarrow> 'p hook_state \<Rightarrow> 'p hook_state" where
  "syncFullProgress uname progress studyItems s =
     (if ws_open s then ws_send (SyncFullProgress progress studyItems uname) s else s)"


text \<open>One drop of the session in \<open>wsRef\<close> followed by the firing of the timeout that
  \<open>ws.onclose\<close> set, with a constructor that succeeds.\<close>

definition drop_and_retry :: "'p hook_state \<Rightarrow> 'p hook_state" where
  "drop_and_retry s = reconnect_timeout True (socket_closed s)"

section \<open>The study-items map, characterised\<close>

text \<open>The file keys of the cart items that have both a \<open>courseId\<close> and a \<open>fileKey\<close>, for one
  course, in cart order: presence of the two fields is all that is asked.\<close>

definition spec_fileKeys :: "StudyItem list \<Rightarrow> string \<Rightarrow> string list" where
  "spec_fileKeys cart c =
     List.map_filter (\<lambda>item. if courseId item = Some c then fileKey item else None) cart"

text \<open>The same with the guard of the code: both fields present and not the empty string.\<close>

definition linked_fileKeys :: "StudyItem list \<Rightarrow> string \<Rightarrow> string list" where
  "linked_fileKeys cart c =
     List.map_filter
       (\<lambda>item. if courseId item = Some c \<and> c \<noteq> [] \<and> fileKey item \<noteq> Some [] then fileKey item
                else None) cart"

section \<open>Concrete inputs\<close>

text \<open>A port that decodes three texts: a progress record, a cart and a leaderboard
  message. Every other text is rejected.\<close>

type_synonym progress = "(string \<times> (string \<times> bool) list) list"

definition demo_item :: "string \<Rightarrow> string option \<Rightarrow> string option \<Rightarrow> StudyItem" where
  "demo_item i c f =
     \<lparr> item_id = i, url = ''/courses/cs101/'' @ i, title = i, courseName = ''CS 101'',
       unitNumber = 1, courseId = c, fileKey = f \<rparr>"

definition demo_cart :: "StudyItem list" where
  "demo_cart =
     [demo_item ''a'' (Some ''cs101'') (Some ''1-f1''),
      demo_item ''b'' None None,
      demo_item ''c'' (Some ''ma201'') (Some ''2-g1''),
      demo_item ''d'' (Some ''cs101'') (Some ''1-f2'')]"

definition demo_entry :: "string \<Rightarrow> string \<Rightarrow> LeaderboardEntry" where
  "demo_entry u n =
     \<lparr> userId = u, username = n, completed = 1, total_files = 2, percentage = 50,
       lastUpdate = ''2025-01-01T00:00:00Z'' \<rparr>"

definition demo_port :: "progress json_port" where
  "demo_port =
     \<lparr> parse_progress = map_of [(''{cs101:{f1:true,f2:false}}'', [(''cs101'', [(''f1'', True), (''f2'', False)])])],
       parse_cart = map_of [(''[a,b,c,d]'', demo_cart)],
       parse_data = map_of
         [(''{type:leaderboard_update,courseId:cs101}'',
           \<lparr> sd_type = ''leaderboard_update'', sd_courseId = Some ''cs101'',
             sd_leaderboard = [demo_entry ''user_2_b'' ''BoldFox7'', demo_entry ''user_1_a'' ''Ada''] \<rparr>)] \<rparr>"

definition demo_closure :: closure where
  "demo_closure = \<lparr> cl_userId = Some ''user_1_a'', cl_courseId = ''cs101'', cl_username = ''Ada'' \<rparr>"

definition demo_store :: storage where
  "demo_store =
     [''course-progress'' \<mapsto> ''{cs101:{f1:true,f2:false}}'', ''study-cart'' \<mapsto> ''[a,b,c,d]'']"

definition demo_state :: "progress hook_state" where
  "demo_state = initial_state True ''cs101'' demo_store"

text \<open>The hook in a browser whose store is empty.\<close>

definition fresh_state :: "progress hook_state" where
  "fresh_state = initial_state True ''cs101'' Map.empty"

text \<open>The hook with an open session.\<close>

definition demo_connected :: "progress hook_state" where
  "demo_connected =
     demo_state\<lparr>isConnected := True,
                wsRef := Some \<lparr>readyState = OPEN, handlers = demo_closure\<rparr>\<rparr>"

definition blank_item :: StudyItem where
  "blank_item = demo_item ''a'' (Some []) (Some ''1-f1'')"

definition inherited_item :: StudyItem where
  "inherited_item = demo_item ''a'' (Some ''constructor'') (Some ''1-f1'')"

text \<open>What the connection of the same user captures once the course is \<open>ma201\<close>.\<close>

definition second_closure :: closure where
  "second_closure = \<lparr> cl_userId = Some ''user_1_a'', cl_courseId = ''ma201'', cl_username = ''Ada'' \<rparr>"

text \<open>The full sync built from the demo progress and cart for the user \<open>Ada\<close>.\<close>

definition ada_sync :: "progress client_msg" where
  "ada_sync =
     SyncFullProgress [(''cs101'', [(''f1'', True), (''f2'', False)])]
       [(''cs101'', [''1-f1'', ''1-f2'']), (''ma201'', [''2-g1''])] ''Ada''"

subsection \<open>A visit that moves from one course to another\<close>

text \<open>The store of a browser that has been here before: identity, progress and cart.\<close>

definition home_store :: storage where
  "home_store =
     [''progress-user-id'' \<mapsto> ''user_1_a'', ''progress-username'' \<mapsto> ''Ada'',
      ''course-progress'' \<mapsto> ''{cs101:{f1:true,f2:false}}'', ''study-cart'' \<mapsto> ''[a,b,c,d]'']"

text \<open>The hook is mounted on course \<open>cs101\<close>: the identity is read and the effect connects.\<close>

definition visit_mounted :: "progress hook_state" where
  "visit_mounted =
     (let s0 = initial_state True ''cs101'' home_store
      in connection_effect True (current_closure s0)
           (init_identity ''1762160000000'' ''k3j9x0q2m'' 0 1 41 s0))"

text \<open>The socket opens.\<close>

definition visit_open :: "progress hook_state" where
  "visit_open = socket_opened demo_port visit_mounted"

text \<open>The user moves on: the parent renders the hook with course \<open>ma201\<close>.\<close>

definition visit_switched :: "progress hook_state" where
  "visit_switched = render_course True ''ma201'' visit_open"

text \<open>The \<open>close\<close> event of the socket that the cleanup closed arrives; its handlers are
  those installed by the \<open>connect\<close> of the first course.\<close>

definition visit_old_closed :: "progress hook_state" where
  "visit_old_closed = ws_onclose demo_closure visit_switched"

text \<open>The socket of the second course opens.\<close>

definition visit_new_open :: "progress hook_state" where
  "visit_new_open = socket_opened demo_port visit_old_closed"

text \<open>Three seconds after the \<open>close\<close> event its timeout fires.\<close>

definition visit_timer_fired :: "progress hook_state" where
  "visit_timer_fired = reconnect_timeout True visit_new_open"

text \<open>The socket made by that timeout opens.\<close>

definition visit_stale_open :: "progress hook_state" where
  "visit_stale_open = socket_opened demo_port visit_timer_fired"

text \<open>The server answers its request with the leaderboard of the first course.\<close>

definition visit_stale_message :: "progress hook_state" where
  "visit_stale_message =
     socket_message demo_port ''{type:leaderboard_update,courseId:cs101}'' visit_stale_open"

section \<open>Facts about the identity store\<close>

lemmas hook_defs = ws_send_def console_log_def console_error_def ws_open_def

lemma decimal_nonempty: "decimal n \<noteq> []"
  by (subst decimal.simps) simp

lemma generateUsername_nonempty: "generateUsername i j k \<noteq> []"
  by (simp add: generateUsername_def Let_def decimal_nonempty)

lemma getUserId_truthy: "getUserId w now rnd st = (Some u, st') \<Longrightarrow> u \<noteq> []"
  by (auto simp: getUserId_def Let_def falsy_def split: if_splits option.splits)

lemma init_identity_userId:
  "cur_userId (init_identity now rnd i j k s) =
     fst (getUserId (hasWindow s) now rnd (localStorage s))"
  by (simp add: init_identity_def split: prod.splits)

text \<open>
  Claim C8. \<open>getUserId\<close> and \<open>getUsername\<close> are idempotent with respect to the store. A
  call on a store without a (non-empty) value generates one and persists it under the key;
  a call on the store a previous call left returns exactly the persisted value and leaves
  the store as it is, whatever the clock and the random draws of that later call are, so
  every later call returns what the first returned. (On the server, without a window,
  both calls return \<open>null\<close>, respectively the empty string, and touch nothing.)
\<close>

theorem identity_store_idempotent:
  "(case getUserId w now rnd st of (u1, st1) \<Rightarrow>
      getUserId w now' rnd' st1 = (u1, st1) \<and>
      (w \<longrightarrow> st1 ''progress-user-id'' = u1) \<and>
      (w \<and> falsy (st ''progress-user-id'') \<longrightarrow>
         u1 = Some (''user_'' @ now @ ''_'' @ rnd) \<and>
         st1 = st(''progress-user-id'' \<mapsto> ''user_'' @ now @ ''_'' @ rnd)) \<and>
      (\<not> falsy (st ''progress-user-id'') \<longrightarrow> st1 = st)) \<and>
   (case getUsername w i j k st of (n1, st1) \<Rightarrow>
      getUsername w i' j' k' st1 = (n1, st1) \<and>
      (w \<longrightarrow> st1 ''progress-username'' = Some n1) \<and>
      (w \<and> falsy (st ''progress-username'') \<longrightarrow>
         n1 = generateUsername i j k \<and>
         st1 = st(''progress-username'' \<mapsto> generateUsername i j k)) \<and>
      (\<not> falsy (st ''progress-username'') \<longrightarrow> st1 = st))"
  by (auto simp: getUserId_def getUsername_def Let_def falsy_def generateUsername_nonempty
           split: option.splits)

theorem identity_store_idempotent_witness:
  "getUserId True ''1762160000000'' ''k3j9x0q2m'' Map.empty =
     (Some ''user_1762160000000_k3j9x0q2m'',
      [''progress-user-id'' \<mapsto> ''user_1762160000000_k3j9x0q2m'']) \<and>
   getUserId True ''1762160000999'' ''zzzzzzzzz''
       [''progress-user-id'' \<mapsto> ''user_1762160000000_k3j9x0q2m''] =
     (Some ''user_1762160000000_k3j9x0q2m'',
      [''progress-user-id'' \<mapsto> ''user_1762160000000_k3j9x0q2m'']) \<and>
   getUsername True 0 1 41 Map.empty =
     (''SwiftTiger42'', [''progress-username'' \<mapsto> ''SwiftTiger42'']) \<and>
   getUsername True 5 5 5 [''progress-username'' \<mapsto> ''SwiftTiger42''] =
     (''SwiftTiger42'', [''progress-username'' \<mapsto> ''SwiftTiger42''])"
  using identity_store_idempotent [of True "''1762160000000''" "''k3j9x0q2m''" Map.empty
      "''1762160000999''" "''zzzzzzzzz''" 0 1 41 5 5 5]
  by (simp add: falsy_def getUserId_def getUsername_def generateUsername_def pick_def
        adjectives_def nouns_def decimal.simps digit_char_def Let_def)

section \<open>Facts about the username\<close>

lemma dropWhile_all_iff: "dropWhile P xs = [] \<longleftrightarrow> (\<forall>x\<in>set xs. P x)"
  by (induction xs) auto

lemma set_dropWhile_all: "(\<forall>x\<in>set (dropWhile P xs). P x) \<longleftrightarrow> (\<forall>x\<in>set xs. P x)"
  by (induction xs) auto

lemma trim_empty_iff: "trim s = [] \<longleftrightarrow> (\<forall>c\<in>set s. is_whitespace c)"
  by (simp add: trim_def dropWhile_all_iff set_dropWhile_all)

text \<open>
  Claim C7. For a name made of whitespace only (the empty name included)
  \<open>updateUsername\<close> changes nothing at all: not the stored name, not the name in memory,
  and nothing is sent. For every other name it sets the name in memory, persists it under
  \<open>progress-username\<close> and, exactly when the socket is open, sends one \<open>set_username\<close>
  message carrying the name; nothing else changes.
\<close>

theorem updateUsername_whitespace_noop:
  "((\<forall>c\<in>set newName. is_whitespace c) \<longrightarrow> updateUsername newName s = s) \<and>
   ((\<exists>c\<in>set newName. \<not> is_whitespace c) \<longrightarrow>
      updateUsername newName s =
        s\<lparr>cur_username := newName,
          localStorage := (localStorage s)(''progress-username'' \<mapsto> newName),
          sent := (if ws_open s then sent s @ [SetUsername newName] else sent s)\<rparr>)"
  by (auto simp: updateUsername_def trim_empty_iff Let_def ws_open_def ws_send_def
           split: option.splits)

theorem updateUsername_whitespace_noop_witness:
  "updateUsername [CHR 0x20, CHR 0x09] demo_connected = demo_connected \<and>
   updateUsername '''' demo_connected = demo_connected \<and>
   localStorage (updateUsername ''Grace'' demo_connected) ''progress-username'' = Some ''Grace'' \<and>
   cur_username (updateUsername ''Grace'' demo_connected) = ''Grace'' \<and>
   sent (updateUsername ''Grace'' demo_connected) = [SetUsername ''Grace''] \<and>
   sent (updateUsername ''Grace'' demo_state) = []"
  using updateUsername_whitespace_noop [of "[CHR 0x20, CHR 0x09]" demo_connected]
        updateUsername_whitespace_noop [of "''''" demo_connected]
        updateUsername_whitespace_noop [of "''Grace''" demo_connected]
        updateUsername_whitespace_noop [of "''Grace''" demo_state]
  by (simp add: is_whitespace_def demo_connected_def demo_state_def initial_state_def ws_open_def)

section \<open>Facts about the rank\<close>

lemma findIndex_from_eq:
  "findIndex_from p i xs =
     (if \<exists>x\<in>set xs. p x then i + int (length (takeWhile (\<lambda>x. \<not> p x) xs)) else -1)"
  by (induction xs arbitrary: i) auto

text \<open>
  Claim C9. For every leaderboard and every value of \<open>userId\<close>, \<open>currentUserRank\<close> is one
  plus the index of the first entry whose \<open>userId\<close> is the client's, and it is \<open>null\<close>
  exactly when \<open>userId\<close> is falsy or no entry carries it; a rank is never below 1. The
  ids that \<open>getUserId\<close> hands to the hook are never the empty string, so for the hook a
  falsy \<open>userId\<close> is the \<open>null\<close> it holds before initialisation.
\<close>

theorem currentUserRank_first_match:
  "currentUserRank lb uid =
     (if falsy uid \<or> (\<forall>e\<in>set lb. Some (userId e) \<noteq> uid) then None
      else Some (1 + int (length (takeWhile (\<lambda>e. Some (userId e) \<noteq> uid) lb)))) \<and>
   (\<forall>r. currentUserRank lb uid = Some r \<longrightarrow> r \<ge> 1) \<and>
   (falsy (fst (getUserId w now rnd st)) \<longleftrightarrow> fst (getUserId w now rnd st) = None)"
proof -
  have rank: "currentUserRank lb uid =
     (if falsy uid \<or> (\<forall>e\<in>set lb. Some (userId e) \<noteq> uid) then None
      else Some (1 + int (length (takeWhile (\<lambda>e. Some (userId e) \<noteq> uid) lb))))"
    by (cases uid) (auto simp: currentUserRank_def findIndex_def findIndex_from_eq falsy_def)
  have pos: "\<forall>r. currentUserRank lb uid = Some r \<longrightarrow> r \<ge> 1"
    by (auto simp: currentUserRank_def Let_def split: option.splits if_splits)
  have init: "falsy (fst (getUserId w now rnd st)) \<longleftrightarrow> fst (getUserId w now rnd st) = None"
    using getUserId_truthy[of w now rnd st]
    by (cases "getUserId w now rnd st") (auto simp: falsy_def split: option.splits)
  from rank pos init show ?thesis by blast
qed

theorem currentUserRank_first_match_witness:
  "currentUserRank [demo_entry ''user_2_b'' ''BoldFox7'', demo_entry ''user_1_a'' ''Ada'',
                    demo_entry ''user_1_a'' ''Ada again''] (Some ''user_1_a'') = Some 2 \<and>
   currentUserRank [demo_entry ''user_2_b'' ''BoldFox7''] (Some ''user_1_a'') = None \<and>
   currentUserRank [demo_entry ''user_2_b'' ''BoldFox7''] None = None"
  using currentUserRank_first_match [of "[demo_entry ''user_2_b'' ''BoldFox7'',
          demo_entry ''user_1_a'' ''Ada'', demo_entry ''user_1_a'' ''Ada again'']"
          "Some ''user_1_a''" True "''1''" "''a''" Map.empty]
        currentUserRank_first_match [of "[demo_entry ''user_2_b'' ''BoldFox7'']"
          "Some ''user_1_a''" True "''1''" "''a''" Map.empty]
        currentUserRank_first_match [of "[demo_entry ''user_2_b'' ''BoldFox7'']"
          None True "''1''" "''a''" Map.empty]
  by (simp add: demo_entry_def falsy_def)

section \<open>Facts about sending while the session is not open\<close>

text \<open>
  Claim C4. While the socket in \<open>wsRef\<close> is missing or not \<open>OPEN\<close>, a progress update is
  appended to the pending queue and not sent; a \<open>set_username\<close>, \<open>request_leaderboard\<close>,
  \<open>sync_study_items\<close> or \<open>sync_full_progress\<close> message is neither sent nor queued, and
  nothing is logged: the callbacks (and the three timer and listener callbacks) return
  the state as it was, \<open>updateUsername\<close> apart, which still records the name locally.
\<close>

theorem not_connected_drops_or_queues:
  assumes "\<not> ws_open s"
  shows "sendProgressUpdate cid uname fk isComplete s =
           s\<lparr>pendingUpdatesRef := pendingUpdatesRef s @
               [\<lparr>pu_courseId = cid, pu_fileKey = fk, pu_isComplete = isComplete\<rparr>]\<rparr> \<and>
         sent (sendProgressUpdate cid uname fk isComplete s) = sent s \<and>
         sent (updateUsername newName s) = sent s \<and>
         pendingUpdatesRef (updateUsername newName s) = pendingUpdatesRef s \<and>
         console (updateUsername newName s) = console s \<and>
         requestLeaderboardUpdate cid s = s \<and>
         syncStudyItems cid fileKeys s = s \<and>
         syncFullProgress uname progress studyItems s = s \<and>
         pollInterval_tick cid s = s \<and>
         syncInterval_tick J uname s = s \<and>
         handleStorageChange J uname key s = s"
  using assms
  by (simp add: sendProgressUpdate_def updateUsername_def requestLeaderboardUpdate_def
        syncStudyItems_def syncFullProgress_def pollInterval_tick_def syncInterval_tick_def
        handleStorageChange_def Let_def ws_open_def)

theorem not_connected_drops_or_queues_witness:
  "pendingUpdatesRef (sendProgressUpdate ''cs101'' ''Ada'' ''1-f1'' True demo_state) =
     [\<lparr>pu_courseId = ''cs101'', pu_fileKey = ''1-f1'', pu_isComplete = True\<rparr>] \<and>
   sent (sendProgressUpdate ''cs101'' ''Ada'' ''1-f1'' True demo_state) = [] \<and>
   sent (updateUsername ''Grace'' demo_state) = [] \<and>
   requestLeaderboardUpdate ''cs101'' demo_state = demo_state \<and>
   syncStudyItems ''cs101'' [''1-f1''] demo_state = demo_state \<and>
   syncFullProgress ''Ada'' [] [] demo_state = demo_state \<and>
   syncInterval_tick demo_port ''Ada'' demo_state = demo_state"
proof -
  have h: "\<not> ws_open demo_state"
    by (simp add: ws_open_def demo_state_def initial_state_def)
  show ?thesis
    using not_connected_drops_or_queues [OF h, where cid = "''cs101''" and uname = "''Ada''"
        and fk = "''1-f1''" and isComplete = True and newName = "''Grace''" and fileKeys = "[''1-f1'']"
        and progress = "[]" and studyItems = "[]" and J = demo_port and key = None]
    by (simp add: demo_state_def initial_state_def)
qed

section \<open>Facts about a visit that changes course\<close>

text \<open>The states of the visit, one after the other: after mounting on \<open>cs101\<close>, after the
  socket opened, after the render with \<open>ma201\<close> (the cleanup found no timeout to clear and
  closed the socket, the effect connected again), after the \<open>close\<close> event of the first
  socket (its timeout is set now, after the cleanup, and nothing clears it), after the
  second socket opened, after the timeout fired (the \<open>connect\<close> of the first course put a
  third socket into \<open>wsRef\<close>), after that socket opened, and after a message on it.\<close>

lemma home_payload: "onopen_payload demo_port ''Ada'' home_store = Payload ada_sync"
  by (simp add: onopen_payload_def demo_port_def home_store_def demo_cart_def demo_item_def
        falsy_def onopen_item_def property_truthy_def assign_property_def push_property_def
        object_prototype_names_def ada_sync_def Let_def)

lemma visit_mounted_state:
  "visit_mounted =
     (initial_state True ''cs101'' home_store)
       \<lparr>cur_username := ''Ada'', cur_userId := Some ''user_1_a'',
        wsRef := Some \<lparr>readyState = CONNECTING, handlers = demo_closure\<rparr>\<rparr>"
  by (simp add: visit_mounted_def init_identity_def getUserId_def getUsername_def
        connection_effect_def connection_cleanup_def connect_def current_closure_def
        initial_state_def home_store_def demo_closure_def falsy_def Let_def)

lemma visit_open_state:
  "visit_open =
     (initial_state True ''cs101'' home_store)
       \<lparr>cur_username := ''Ada'', cur_userId := Some ''user_1_a'', isConnected := True,
        wsRef := Some \<lparr>readyState = OPEN, handlers = demo_closure\<rparr>,
        sent := [ada_sync, RequestLeaderboard ''cs101''],
        console := [Log ''Connected to progress tracking server'',
                    Log ''Synced full progress state to server'']\<rparr>"
  by (simp add: visit_open_def visit_mounted_state socket_opened_def ws_onopen_def
        onopen_sync_def initial_state_def demo_closure_def home_payload
        ws_send_def console_log_def Let_def)

lemma visit_switched_state:
  "visit_switched =
     visit_open\<lparr>cur_courseId := ''ma201'',
                wsRef := Some \<lparr>readyState = CONNECTING, handlers = second_closure\<rparr>\<rparr>"
  by (simp add: visit_switched_def visit_open_state render_course_def connection_effect_def
        connection_cleanup_def close_socket_def connect_def current_closure_def
        initial_state_def second_closure_def falsy_def Let_def)

lemma visit_old_closed_state:
  "visit_old_closed =
     visit_switched\<lparr>isConnected := False,
                    timers := [ReconnectTimer 3000 demo_closure], timerIds := [1],
                    nextTimerId := 2, reconnectTimeoutRef := Some 1,
                    console := console visit_switched @
                      [Log ''Disconnected from progress tracking server'']\<rparr>"
  by (simp add: visit_old_closed_def visit_switched_state visit_open_state ws_onclose_def
        initial_state_def console_log_def Let_def)

lemma visit_new_open_state:
  "visit_new_open =
     visit_old_closed\<lparr>isConnected := True,
                      wsRef := Some \<lparr>readyState = OPEN, handlers = second_closure\<rparr>,
                      sent := sent visit_old_closed @ [ada_sync, RequestLeaderboard ''ma201''],
                      console := console visit_old_closed @
                        [Log ''Connected to progress tracking server'',
                         Log ''Synced full progress state to server'']\<rparr>"
  by (simp add: visit_new_open_def visit_old_closed_state visit_switched_state visit_open_state
        socket_opened_def ws_onopen_def onopen_sync_def initial_state_def second_closure_def
        home_payload ws_send_def console_log_def Let_def)

lemma visit_timer_fired_state:
  "visit_timer_fired =
     visit_new_open\<lparr>timers := [], timerIds := [],
                    wsRef := Some \<lparr>readyState = CONNECTING, handlers = demo_closure\<rparr>,
                    console := console visit_new_open @ [Log ''Attempting to reconnect...'']\<rparr>"
  by (simp add: visit_timer_fired_def visit_new_open_state visit_old_closed_state
        visit_switched_state visit_open_state reconnect_timeout_def connect_def
        initial_state_def demo_closure_def falsy_def console_log_def Let_def)

lemma visit_stale_open_state:
  "visit_stale_open =
     visit_timer_fired\<lparr>wsRef := Some \<lparr>readyState = OPEN, handlers = demo_closure\<rparr>,
                       sent := sent visit_timer_fired @ [ada_sync, RequestLeaderboard ''cs101''],
                       console := console visit_timer_fired @
                         [Log ''Connected to progress tracking server'',
                          Log ''Synced full progress state to server'']\<rparr>"
  by (simp add: visit_stale_open_def visit_timer_fired_state visit_new_open_state
        visit_old_closed_state visit_switched_state visit_open_state
        socket_opened_def ws_onopen_def onopen_sync_def initial_state_def demo_closure_def
        home_payload ws_send_def console_log_def Let_def)

lemma visit_stale_message_state:
  "visit_stale_message =
     visit_stale_open\<lparr>leaderboard :=
        [demo_entry ''user_2_b'' ''BoldFox7'', demo_entry ''user_1_a'' ''Ada'']\<rparr>"
  by (simp add: visit_stale_message_def visit_stale_open_state visit_timer_fired_state
        visit_new_open_state visit_old_closed_state visit_switched_state visit_open_state
        socket_message_def ws_onmessage_def initial_state_def demo_closure_def demo_port_def)

text \<open>A connection made by the effect of the current render carries what that render
  captured.\<close>

lemma connection_effect_connects:
  assumes "\<not> falsy (cur_userId s)" "hasWindow s" "current_closure s \<noteq> prev"
  shows "wsRef (connection_effect True prev s) =
           Some \<lparr>readyState = CONNECTING, handlers = current_closure s\<rparr>"
    and "sent (connection_effect True prev s) = sent s"
    and "localStorage (connection_effect True prev s) = localStorage s"
    and "cur_courseId (connection_effect True prev s) = cur_courseId s"
  using assms
  by (simp_all add: connection_effect_def connection_cleanup_def clearTimeout_def connect_def
        current_closure_def Let_def split: option.splits)

section \<open>Facts about inbound messages\<close>

text \<open>
  What \<open>ws.onmessage\<close> does, for the socket whose handlers captured \<open>c\<close>. A
  \<open>leaderboard_update\<close> whose \<open>courseId\<close> is the course that \<open>connect\<close> captured replaces the
  cached leaderboard with the one of the message and changes nothing else; a
  \<open>leaderboard_update\<close> for another course leaves the whole state as it was; no other
  message touches the leaderboard. A payload that does not parse is logged with
  \<open>console.error\<close> and dropped. In no case is the socket closed, the connection flag
  changed, a reconnection scheduled or anything sent.
\<close>

lemma onmessage_leaderboard_update:
  "(case parse_data J event_data of
      None \<Rightarrow>
        ws_onmessage J c event_data s =
          s\<lparr>console := console s @ [Error ''Error parsing WebSocket message:'']\<rparr>
    | Some d \<Rightarrow>
        (sd_type d = ''leaderboard_update'' \<and> sd_courseId d = Some (cl_courseId c) \<longrightarrow>
           ws_onmessage J c event_data s = s\<lparr>leaderboard := sd_leaderboard d\<rparr>) \<and>
        (sd_type d = ''leaderboard_update'' \<and> sd_courseId d \<noteq> Some (cl_courseId c) \<longrightarrow>
           ws_onmessage J c event_data s = s) \<and>
        (sd_type d \<noteq> ''leaderboard_update'' \<longrightarrow>
           leaderboard (ws_onmessage J c event_data s) = leaderboard s)) \<and>
   wsRef (ws_onmessage J c event_data s) = wsRef s \<and>
   isConnected (ws_onmessage J c event_data s) = isConnected s \<and>
   timers (ws_onmessage J c event_data s) = timers s \<and>
   sent (ws_onmessage J c event_data s) = sent s"
  by (auto simp: ws_onmessage_def hook_defs split: option.splits)

lemma onmessage_leaderboard_update_example:
  "leaderboard (ws_onmessage demo_port demo_closure
                  ''{type:leaderboard_update,courseId:cs101}'' demo_connected) =
     [demo_entry ''user_2_b'' ''BoldFox7'', demo_entry ''user_1_a'' ''Ada''] \<and>
   ws_onmessage demo_port (demo_closure\<lparr>cl_courseId := ''ma201''\<rparr>)
       ''{type:leaderboard_update,courseId:cs101}'' demo_connected = demo_connected \<and>
   ws_onmessage demo_port demo_closure ''<html>'' demo_connected =
     demo_connected\<lparr>console := [Error ''Error parsing WebSocket message:'']\<rparr> \<and>
   wsRef (ws_onmessage demo_port demo_closure ''<html>'' demo_connected) =
     Some \<lparr>readyState = OPEN, handlers = demo_closure\<rparr>"
  using onmessage_leaderboard_update [where J = demo_port and c = demo_closure
          and event_data = "''{type:leaderboard_update,courseId:cs101}''" and s = demo_connected]
        onmessage_leaderboard_update [where J = demo_port
          and c = "demo_closure\<lparr>cl_courseId := ''ma201''\<rparr>"
          and event_data = "''{type:leaderboard_update,courseId:cs101}''" and s = demo_connected]
        onmessage_leaderboard_update [where J = demo_port and c = demo_closure
          and event_data = "''<html>''" and s = demo_connected]
  by (simp add: demo_port_def demo_closure_def demo_connected_def demo_state_def
        initial_state_def)

text \<open>
  Claim C6 asks for the comparison with the course currently displayed. The code compares
  with the course its \<open>connect\<close> captured, and the two differ on the socket that a left-over
  timeout opens: in the visit above the hook displays \<open>ma201\<close>, the socket in \<open>wsRef\<close> was
  made by the \<open>connect\<close> of \<open>cs101\<close>, and a \<open>leaderboard_update\<close> for \<open>cs101\<close> replaces the
  cached leaderboard.
\<close>

theorem stale_socket_replaces_leaderboard:
  "cur_courseId visit_open = ''cs101'' \<and>
   wsRef visit_open = Some \<lparr>readyState = OPEN, handlers = demo_closure\<rparr> \<and>
   cur_courseId visit_switched = ''ma201'' \<and>
   wsRef visit_switched = Some \<lparr>readyState = CONNECTING, handlers = second_closure\<rparr> \<and>
   timers visit_switched = [] \<and>
   timers visit_old_closed = [ReconnectTimer 3000 demo_closure] \<and>
   wsRef visit_timer_fired = Some \<lparr>readyState = CONNECTING, handlers = demo_closure\<rparr> \<and>
   cur_courseId visit_stale_open = ''ma201'' \<and>
   wsRef visit_stale_open = Some \<lparr>readyState = OPEN, handlers = demo_closure\<rparr> \<and>
   leaderboard visit_stale_open = [] \<and>
   parse_data demo_port ''{type:leaderboard_update,courseId:cs101}'' =
     Some \<lparr> sd_type = ''leaderboard_update'', sd_courseId = Some ''cs101'',
            sd_leaderboard = [demo_entry ''user_2_b'' ''BoldFox7'', demo_entry ''user_1_a'' ''Ada''] \<rparr> \<and>
   cur_courseId visit_stale_message = ''ma201'' \<and>
   leaderboard visit_stale_message =
     [demo_entry ''user_2_b'' ''BoldFox7'', demo_entry ''user_1_a'' ''Ada'']"
  by (simp add: visit_stale_message_state visit_stale_open_state visit_timer_fired_state
        visit_new_open_state visit_old_closed_state visit_switched_state visit_open_state
        initial_state_def demo_port_def)

section \<open>Facts about the payloads of the four triggers\<close>

lemma onopen_item_eq: "interval_item = onopen_item" "storage_item = onopen_item"
  by (simp_all add: fun_eq_iff interval_item_def onopen_item_def storage_item_def)

lemma payload_eq:
  "interval_payload J u st = onopen_payload J u st"
  "storage_payload J u st = onopen_payload J u st"
  unfolding interval_payload_def storage_payload_def onopen_payload_def onopen_item_eq
  by (rule refl)+

lemma payload_shape:
  "onopen_payload J u st = Payload m \<Longrightarrow> \<exists>p si. m = SyncFullProgress p si u"
  by (auto simp: onopen_payload_def Let_def split: if_splits option.splits)

lemma payload_built:
  "onopen_payload J u st = Payload m \<Longrightarrow>
     \<exists>t p si. st ''course-progress'' = Some t \<and> t \<noteq> [] \<and> parse_progress J t = Some p \<and>
       m = SyncFullProgress p si u \<and>
       ((falsy (st ''study-cart'') \<and> si = []) \<or>
        (\<exists>ct cart. st ''study-cart'' = Some ct \<and> ct \<noteq> [] \<and> parse_cart J ct = Some cart \<and>
           forEach onopen_item cart [] = Some si))"
  by (auto simp: onopen_payload_def Let_def falsy_def split: if_splits option.splits)

lemma payload_none:
  "falsy (st ''course-progress'') \<Longrightarrow> onopen_payload J u st = NoProgress"
  "st ''course-progress'' = Some t \<Longrightarrow> t \<noteq> [] \<Longrightarrow> parse_progress J t = None \<Longrightarrow>
     onopen_payload J u st = Thrown"
  by (simp_all add: onopen_payload_def falsy_def)

lemma demo_payload:
  "onopen_payload demo_port ''Ada'' demo_store =
     Payload (SyncFullProgress [(''cs101'', [(''f1'', True), (''f2'', False)])]
                [(''cs101'', [''1-f1'', ''1-f2'']), (''ma201'', [''2-g1''])] ''Ada'')"
  by (simp add: onopen_payload_def demo_port_def demo_store_def demo_cart_def demo_item_def
        falsy_def onopen_item_def property_truthy_def assign_property_def push_property_def
        object_prototype_names_def Let_def)

text \<open>
  Claim C2, as the code has it. The on-connect sync, the periodic sync and the
  change-triggered sync build the same outcome from every store and username: the three
  builders are equal, and what they build, when they build a message, is a
  \<open>sync_full_progress\<close> carrying that username. The leaderboard poll builds a
  \<open>request_leaderboard\<close> for the course and reads nothing of the store.
\<close>

theorem sync_payloads_identical:
  "onopen_payload J uname st = interval_payload J uname st \<and>
   interval_payload J uname st = storage_payload J uname st \<and>
   (case onopen_payload J uname st of
      Payload m \<Rightarrow> (case m of SyncFullProgress p si u \<Rightarrow> u = uname | _ \<Rightarrow> False)
    | _ \<Rightarrow> True) \<and>
   poll_payload cid = (RequestLeaderboard cid :: 'p client_msg)"
  using payload_shape[of J uname st]
  by (auto simp: payload_eq poll_payload_def split: attempt.splits)

theorem sync_payloads_identical_witness:
  "interval_payload demo_port ''Ada'' demo_store =
     Payload (SyncFullProgress [(''cs101'', [(''f1'', True), (''f2'', False)])]
                [(''cs101'', [''1-f1'', ''1-f2'']), (''ma201'', [''2-g1''])] ''Ada'') \<and>
   storage_payload demo_port ''Ada'' demo_store =
     Payload (SyncFullProgress [(''cs101'', [(''f1'', True), (''f2'', False)])]
                [(''cs101'', [''1-f1'', ''1-f2'']), (''ma201'', [''2-g1''])] ''Ada'')"
  using sync_payloads_identical [where J = demo_port and uname = "''Ada''" and st = demo_store
          and cid = "''cs101''"]
  by (metis demo_payload)

text \<open>The claim as stated fails: on the demo store the poll's payload is not the payload of
  the on-connect sync.\<close>

theorem poll_payload_differs_counterexample:
  "onopen_payload demo_port ''Ada'' demo_store =
     Payload (SyncFullProgress [(''cs101'', [(''f1'', True), (''f2'', False)])]
                [(''cs101'', [''1-f1'', ''1-f2'']), (''ma201'', [''2-g1''])] ''Ada'') \<and>
   poll_payload ''cs101'' = (RequestLeaderboard ''cs101'' :: progress client_msg) \<and>
   Payload (poll_payload ''cs101'') \<noteq> onopen_payload demo_port ''Ada'' demo_store"
  by (simp add: demo_payload poll_payload_def)

section \<open>Facts about a sync cycle and the store\<close>

lemma sync_steps_storage:
  "localStorage (onopen_sync J c s) = localStorage s"
  "localStorage (ws_onopen J c s) = localStorage s"
  "localStorage (syncInterval_tick J u s) = localStorage s"
  "localStorage (handleStorageChange J u key s) = localStorage s"
  by (simp_all add: onopen_sync_def ws_onopen_def syncInterval_tick_def handleStorageChange_def
        hook_defs Let_def split: attempt.splits)

text \<open>
  Claim C5. None of the three sync cycles writes the store: the store after the try block of
  \<open>ws.onopen\<close>, after the whole of \<open>ws.onopen\<close>, after a tick of the periodic sync and after
  a storage event is the store before. When no progress is stored (no value, or the empty
  text) each cycle returns the state as it was. When the stored progress does not parse,
  nothing is sent and nothing but the console changes: the exception is caught and logged.
  In both cases the only message of the whole \<open>ws.onopen\<close> is the leaderboard request that
  follows its sync cycle.
\<close>

theorem sync_cycle_reads_only:
  "localStorage (onopen_sync J c s) = localStorage s \<and>
   localStorage (ws_onopen J c s) = localStorage s \<and>
   localStorage (syncInterval_tick J u s) = localStorage s \<and>
   localStorage (handleStorageChange J u key s) = localStorage s \<and>
   (falsy (localStorage s ''course-progress'') \<longrightarrow>
      onopen_sync J c s = s \<and> syncInterval_tick J u s = s \<and>
      handleStorageChange J u key s = s \<and>
      sent (ws_onopen J c s) = sent s @ [RequestLeaderboard (cl_courseId c)]) \<and>
   (localStorage s ''course-progress'' = Some t \<and> t \<noteq> [] \<and> parse_progress J t = None \<longrightarrow>
      onopen_sync J c s = s\<lparr>console := console s @ [Error ''Failed to sync progress:'']\<rparr> \<and>
      syncInterval_tick J u s = s\<lparr>console := console (syncInterval_tick J u s)\<rparr> \<and>
      handleStorageChange J u key s = s\<lparr>console := console (handleStorageChange J u key s)\<rparr> \<and>
      sent (syncInterval_tick J u s) = sent s \<and>
      sent (handleStorageChange J u key s) = sent s \<and>
      sent (ws_onopen J c s) = sent s @ [RequestLeaderboard (cl_courseId c)])"
proof -
  have onopen_sent:
    "sent (ws_onopen J c s) = sent (onopen_sync J c s) @ [RequestLeaderboard (cl_courseId c)]"
    "localStorage s ''course-progress'' = Some t \<Longrightarrow> t \<noteq> [] \<Longrightarrow> parse_progress J t = None \<Longrightarrow>
       sent (onopen_sync J c s) = sent s"
    "falsy (localStorage s ''course-progress'') \<Longrightarrow> sent (onopen_sync J c s) = sent s"
    by (simp_all add: ws_onopen_def onopen_sync_def payload_none hook_defs Let_def
          split: attempt.splits)
  have absent: "onopen_sync J c s = s \<and> syncInterval_tick J u s = s \<and>
      handleStorageChange J u key s = s"
    if "falsy (localStorage s ''course-progress'')"
    using that
    by (simp add: onopen_sync_def syncInterval_tick_def handleStorageChange_def
          payload_eq payload_none)
  have broken: "onopen_sync J c s = s\<lparr>console := console s @ [Error ''Failed to sync progress:'']\<rparr> \<and>
      syncInterval_tick J u s = s\<lparr>console := console (syncInterval_tick J u s)\<rparr> \<and>
      handleStorageChange J u key s = s\<lparr>console := console (handleStorageChange J u key s)\<rparr> \<and>
      sent (syncInterval_tick J u s) = sent s \<and>
      sent (handleStorageChange J u key s) = sent s"
    if "localStorage s ''course-progress'' = Some t" "t \<noteq> []" "parse_progress J t = None"
    using that
    by (simp add: onopen_sync_def syncInterval_tick_def handleStorageChange_def
          payload_eq payload_none(2) console_error_def)
  show ?thesis
    using absent broken onopen_sent by (simp add: sync_steps_storage)
qed

theorem sync_cycle_reads_only_witness:
  "onopen_sync demo_port demo_closure fresh_state = fresh_state \<and>
   syncInterval_tick demo_port ''Ada''
       (fresh_state\<lparr>wsRef := Some \<lparr>readyState = OPEN, handlers = demo_closure\<rparr>\<rparr>) =
     fresh_state\<lparr>wsRef := Some \<lparr>readyState = OPEN, handlers = demo_closure\<rparr>\<rparr> \<and>
   onopen_sync demo_port demo_closure
       (fresh_state\<lparr>localStorage := [''course-progress'' \<mapsto> ''{not json'']\<rparr>) =
     fresh_state\<lparr>localStorage := [''course-progress'' \<mapsto> ''{not json''],
                 console := [Error ''Failed to sync progress:'']\<rparr> \<and>
   localStorage (onopen_sync demo_port demo_closure demo_connected) = demo_store"
  using sync_cycle_reads_only [where J = demo_port and c = demo_closure and s = fresh_state
          and u = "''Ada''" and key = None and t = "''x''"]
        sync_cycle_reads_only [where J = demo_port and c = demo_closure
          and s = "fresh_state\<lparr>wsRef := Some \<lparr>readyState = OPEN, handlers = demo_closure\<rparr>\<rparr>"
          and u = "''Ada''" and key = None and t = "''x''"]
        sync_cycle_reads_only [where J = demo_port and c = demo_closure
          and s = "fresh_state\<lparr>localStorage := [''course-progress'' \<mapsto> ''{not json'']\<rparr>"
          and u = "''Ada''" and key = None and t = "''{not json''"]
        sync_cycle_reads_only [where J = demo_port and c = demo_closure and s = demo_connected
          and u = "''Ada''" and key = None and t = "''x''"]
  by (simp add: falsy_def fresh_state_def initial_state_def demo_port_def demo_connected_def
        demo_state_def)

section \<open>Facts about entering the connected state\<close>

text \<open>The claim C1 as stated fails. With nothing stored under \<open>course-progress\<close> the handler
  sends the leaderboard request only, and no \<open>sync_full_progress\<close>. And in the visit above
  the socket that the left-over timeout made opens while the hook displays \<open>ma201\<close>, and
  its request is for \<open>cs101\<close>.\<close>

theorem onopen_counterexample:
  "sent (ws_onopen demo_port demo_closure fresh_state) = [RequestLeaderboard ''cs101''] \<and>
   cur_courseId visit_timer_fired = ''ma201'' \<and>
   wsRef visit_timer_fired = Some \<lparr>readyState = CONNECTING, handlers = demo_closure\<rparr> \<and>
   visit_stale_open = socket_opened demo_port visit_timer_fired \<and>
   cur_courseId visit_stale_open = ''ma201'' \<and>
   sent visit_stale_open = sent visit_timer_fired @ [ada_sync, RequestLeaderboard ''cs101'']"
proof -
  have fresh: "sent (ws_onopen demo_port demo_closure fresh_state) = [RequestLeaderboard ''cs101'']"
    by (simp add: ws_onopen_def onopen_sync_def onopen_payload_def falsy_def fresh_state_def
          initial_state_def demo_closure_def ws_send_def console_log_def Let_def)
  have stale: "cur_courseId visit_timer_fired = ''ma201'' \<and>
      wsRef visit_timer_fired = Some \<lparr>readyState = CONNECTING, handlers = demo_closure\<rparr> \<and>
      cur_courseId visit_stale_open = ''ma201'' \<and>
      sent visit_stale_open = sent visit_timer_fired @ [ada_sync, RequestLeaderboard ''cs101'']"
    by (simp add: visit_stale_open_state visit_timer_fired_state visit_new_open_state
          visit_old_closed_state visit_switched_state visit_open_state initial_state_def)
  from fresh stale visit_stale_open_def show ?thesis by blast
qed

text \<open>
  Claim C1, as the code has it. On every run of \<open>ws.onopen\<close> the messages sent are, in this
  order: the \<open>sync_full_progress\<close> message built from the store if one could be built, and
  one \<open>request_leaderboard\<close>; the pending queue is empty afterwards and none of its items
  is sent; the store is not written. The request is for the course currently displayed
  whenever the handlers of the socket captured that course, and so it is for every
  connection that the effect of the current render makes. A message is built exactly when
  progress is stored, is not the empty text and parses, and the stored cart (if any)
  parses and its loop does not throw; then the message carries the parsed progress, the
  study items of the cart and the captured username. With no stored progress nothing is
  built. The handler is what runs when the socket in \<open>wsRef\<close> opens.
\<close>

theorem onopen_effects:
  "(cl_courseId c = cur_courseId s \<longrightarrow>
      sent (ws_onopen J c s) =
        sent s @ (case onopen_payload J (cl_username c) (localStorage s) of
                    Payload m \<Rightarrow> [m] | Thrown \<Rightarrow> [] | NoProgress \<Rightarrow> [])
               @ [RequestLeaderboard (cur_courseId s)]) \<and>
   (\<exists>cid. sent (ws_onopen J c s) =
        sent s @ (case onopen_payload J (cl_username c) (localStorage s) of
                    Payload m \<Rightarrow> [m] | Thrown \<Rightarrow> [] | NoProgress \<Rightarrow> [])
               @ [RequestLeaderboard cid]) \<and>
   pendingUpdatesRef (ws_onopen J c s) = [] \<and>
   isConnected (ws_onopen J c s) \<and>
   localStorage (ws_onopen J c s) = localStorage s \<and>
   cur_courseId (ws_onopen J c s) = cur_courseId s \<and>
   (falsy (localStorage s ''course-progress'') \<longrightarrow>
      onopen_payload J (cl_username c) (localStorage s) = NoProgress) \<and>
   (localStorage s ''course-progress'' = Some t \<and> t \<noteq> [] \<and> parse_progress J t = Some p \<and>
    falsy (localStorage s ''study-cart'') \<longrightarrow>
      onopen_payload J (cl_username c) (localStorage s) =
        Payload (SyncFullProgress p [] (cl_username c))) \<and>
   (localStorage s ''course-progress'' = Some t \<and> t \<noteq> [] \<and> parse_progress J t = Some p \<and>
    localStorage s ''study-cart'' = Some ct \<and> ct \<noteq> [] \<and> parse_cart J ct = Some cart \<and>
    forEach onopen_item cart [] = Some si \<longrightarrow>
      onopen_payload J (cl_username c) (localStorage s) =
        Payload (SyncFullProgress p si (cl_username c))) \<and>
   (onopen_payload J (cl_username c) (localStorage s) = Payload m \<longrightarrow>
      (\<exists>t' p' si'. localStorage s ''course-progress'' = Some t' \<and> t' \<noteq> [] \<and>
         parse_progress J t' = Some p' \<and> m = SyncFullProgress p' si' (cl_username c) \<and>
         ((falsy (localStorage s ''study-cart'') \<and> si' = []) \<or>
          (\<exists>ct' cart'. localStorage s ''study-cart'' = Some ct' \<and> ct' \<noteq> [] \<and>
             parse_cart J ct' = Some cart' \<and> forEach onopen_item cart' [] = Some si')))) \<and>
   (wsRef s = Some ws \<longrightarrow>
      ws_open (socket_opened J s) \<and>
      socket_opened J s = ws_onopen J (handlers ws) (s\<lparr>wsRef := Some (ws\<lparr>readyState := OPEN\<rparr>)\<rparr>)) \<and>
   (\<not> falsy (cur_userId s) \<and> hasWindow s \<and> current_closure s \<noteq> prev \<longrightarrow>
      wsRef (connection_effect True prev s) =
        Some \<lparr>readyState = CONNECTING, handlers = current_closure s\<rparr> \<and>
      sent (socket_opened J (connection_effect True prev s)) =
        sent s @ (case onopen_payload J (cur_username s) (localStorage s) of
                    Payload m \<Rightarrow> [m] | Thrown \<Rightarrow> [] | NoProgress \<Rightarrow> [])
               @ [RequestLeaderboard (cur_courseId s)])"
proof -
  have opened: "wsRef s = Some ws \<longrightarrow>
      ws_open (socket_opened J s) \<and>
      socket_opened J s = ws_onopen J (handlers ws) (s\<lparr>wsRef := Some (ws\<lparr>readyState := OPEN\<rparr>)\<rparr>)"
    by (simp add: socket_opened_def ws_onopen_def onopen_sync_def hook_defs Let_def
          split: attempt.splits)
  have sent_eq: "sent (ws_onopen J c' s') =
     sent s' @ (case onopen_payload J (cl_username c') (localStorage s') of
                 Payload m \<Rightarrow> [m] | Thrown \<Rightarrow> [] | NoProgress \<Rightarrow> [])
            @ [RequestLeaderboard (cl_courseId c')]" for c' and s' :: "'a hook_state"
    by (simp add: ws_onopen_def onopen_sync_def hook_defs Let_def split: attempt.splits)
  have active: "cl_courseId c = cur_courseId s \<longrightarrow>
      sent (ws_onopen J c s) =
        sent s @ (case onopen_payload J (cl_username c) (localStorage s) of
                    Payload m \<Rightarrow> [m] | Thrown \<Rightarrow> [] | NoProgress \<Rightarrow> [])
               @ [RequestLeaderboard (cur_courseId s)]"
    using sent_eq[of c s] by simp
  have one: "\<exists>cid. sent (ws_onopen J c s) =
        sent s @ (case onopen_payload J (cl_username c) (localStorage s) of
                    Payload m \<Rightarrow> [m] | Thrown \<Rightarrow> [] | NoProgress \<Rightarrow> [])
               @ [RequestLeaderboard cid]"
    using sent_eq[of c s] by blast
  have rest: "pendingUpdatesRef (ws_onopen J c s) = [] \<and> isConnected (ws_onopen J c s) \<and>
      cur_courseId (ws_onopen J c s) = cur_courseId s"
    by (simp add: ws_onopen_def onopen_sync_def hook_defs Let_def split: attempt.splits)
  have built: "onopen_payload J (cl_username c) (localStorage s) = Payload m \<longrightarrow>
      (\<exists>t' p' si'. localStorage s ''course-progress'' = Some t' \<and> t' \<noteq> [] \<and>
         parse_progress J t' = Some p' \<and> m = SyncFullProgress p' si' (cl_username c) \<and>
         ((falsy (localStorage s ''study-cart'') \<and> si' = []) \<or>
          (\<exists>ct' cart'. localStorage s ''study-cart'' = Some ct' \<and> ct' \<noteq> [] \<and>
             parse_cart J ct' = Some cart' \<and> forEach onopen_item cart' [] = Some si')))"
    using payload_built[of J "cl_username c" "localStorage s" m] by blast
  have plain: "localStorage s ''course-progress'' = Some t \<and> t \<noteq> [] \<and>
      parse_progress J t = Some p \<and> falsy (localStorage s ''study-cart'') \<longrightarrow>
      onopen_payload J (cl_username c) (localStorage s) =
        Payload (SyncFullProgress p [] (cl_username c))"
    by (simp add: onopen_payload_def falsy_def)
  have cart: "localStorage s ''course-progress'' = Some t \<and> t \<noteq> [] \<and>
      parse_progress J t = Some p \<and>
      localStorage s ''study-cart'' = Some ct \<and> ct \<noteq> [] \<and> parse_cart J ct = Some cart \<and>
      forEach onopen_item cart [] = Some si \<longrightarrow>
      onopen_payload J (cl_username c) (localStorage s) =
        Payload (SyncFullProgress p si (cl_username c))"
    by (simp add: onopen_payload_def falsy_def)
  have stor: "localStorage (ws_onopen J c s) = localStorage s"
    by (rule sync_steps_storage)
  have nop: "falsy (localStorage s ''course-progress'') \<longrightarrow>
      onopen_payload J (cl_username c) (localStorage s) = NoProgress"
    by (simp add: payload_none(1))
  have effect: "\<not> falsy (cur_userId s) \<and> hasWindow s \<and> current_closure s \<noteq> prev \<longrightarrow>
      wsRef (connection_effect True prev s) =
        Some \<lparr>readyState = CONNECTING, handlers = current_closure s\<rparr> \<and>
      sent (socket_opened J (connection_effect True prev s)) =
        sent s @ (case onopen_payload J (cur_username s) (localStorage s) of
                    Payload m \<Rightarrow> [m] | Thrown \<Rightarrow> [] | NoProgress \<Rightarrow> [])
               @ [RequestLeaderboard (cur_courseId s)]"
  proof (intro impI, elim conjE)
    assume a: "\<not> falsy (cur_userId s)" "hasWindow s" "current_closure s \<noteq> prev"
    let ?s1 = "connection_effect True prev s"
    note ce = connection_effect_connects[OF a]
    have "sent (socket_opened J ?s1) =
        sent (ws_onopen J (current_closure s)
                (?s1\<lparr>wsRef := Some \<lparr>readyState = OPEN, handlers = current_closure s\<rparr>\<rparr>))"
      by (simp add: socket_opened_def ce(1))
    also have "\<dots> = sent s @ (case onopen_payload J (cur_username s) (localStorage s) of
                    Payload m \<Rightarrow> [m] | Thrown \<Rightarrow> [] | NoProgress \<Rightarrow> [])
               @ [RequestLeaderboard (cur_courseId s)]"
      by (simp add: sent_eq ce current_closure_def)
    finally show "wsRef ?s1 = Some \<lparr>readyState = CONNECTING, handlers = current_closure s\<rparr> \<and>
      sent (socket_opened J ?s1) =
        sent s @ (case onopen_payload J (cur_username s) (localStorage s) of
                    Payload m \<Rightarrow> [m] | Thrown \<Rightarrow> [] | NoProgress \<Rightarrow> [])
               @ [RequestLeaderboard (cur_courseId s)]"
      using ce(1) by simp
  qed
  show ?thesis
    by (intro conjI) (use active one rest stor nop plain cart built opened effect in blast)+
qed

theorem onopen_effects_witness:
  "sent (ws_onopen demo_port demo_closure
           (sendProgressUpdate ''cs101'' ''Ada'' ''1-f1'' True demo_state)) =
     [SyncFullProgress [(''cs101'', [(''f1'', True), (''f2'', False)])]
        [(''cs101'', [''1-f1'', ''1-f2'']), (''ma201'', [''2-g1''])] ''Ada'',
      RequestLeaderboard ''cs101''] \<and>
   cur_courseId (sendProgressUpdate ''cs101'' ''Ada'' ''1-f1'' True demo_state) = ''cs101'' \<and>
   pendingUpdatesRef (sendProgressUpdate ''cs101'' ''Ada'' ''1-f1'' True demo_state) =
     [\<lparr>pu_courseId = ''cs101'', pu_fileKey = ''1-f1'', pu_isComplete = True\<rparr>] \<and>
   pendingUpdatesRef (ws_onopen demo_port demo_closure
           (sendProgressUpdate ''cs101'' ''Ada'' ''1-f1'' True demo_state)) = [] \<and>
   cur_courseId visit_switched = ''ma201'' \<and>
   sent visit_new_open = sent visit_old_closed @ [ada_sync, RequestLeaderboard ''ma201'']"
  using onopen_effects [where J = demo_port and c = demo_closure
          and s = "sendProgressUpdate ''cs101'' ''Ada'' ''1-f1'' True demo_state"
          and t = "''{cs101:{f1:true,f2:false}}''"
          and p = "[(''cs101'', [(''f1'', True), (''f2'', False)])]"
          and ct = "''[a,b,c,d]''" and cart = demo_cart
          and si = "[(''cs101'', [''1-f1'', ''1-f2'']), (''ma201'', [''2-g1''])]"
          and m = "RequestLeaderboard ''cs101''"]
        demo_payload
  by (simp add: sendProgressUpdate_def ws_open_def demo_state_def initial_state_def
        demo_closure_def demo_store_def visit_new_open_state visit_old_closed_state
        visit_switched_state visit_open_state)

section \<open>Facts about reconnection\<close>

text \<open>The claim C3 as stated fails for a connection error: when the constructor of the
  socket throws, \<open>connect\<close> ends in its \<open>catch\<close> block with no socket and no timeout
  pending, and the \<open>error\<close> handler of a socket schedules nothing either.\<close>

theorem close_schedules_counterexample:
  "timers (connect False demo_closure demo_state) = [] \<and>
   wsRef (connect False demo_closure demo_state) = None \<and>
   console (connect False demo_closure demo_state) = [Error ''Failed to connect to WebSocket:''] \<and>
   timers (ws_onerror demo_state) = []"
  by (simp add: connect_def ws_onerror_def demo_state_def initial_state_def demo_closure_def
        falsy_def hook_defs)

lemma socket_closed_timers:
  "wsRef s = Some ws \<Longrightarrow> timers (socket_closed s) = timers s @ [ReconnectTimer 3000 (handlers ws)]"
  by (simp add: socket_closed_def ws_onclose_def hook_defs Let_def)

lemma drop_and_retry_step:
  assumes "wsRef s = Some ws" "\<not> falsy (cl_userId (handlers ws))" "hasWindow s" "timers s = []"
  shows "wsRef (drop_and_retry s) = Some \<lparr>readyState = CONNECTING, handlers = handlers ws\<rparr> \<and>
         hasWindow (drop_and_retry s) \<and> timers (drop_and_retry s) = []"
  using assms
  by (simp add: drop_and_retry_def reconnect_timeout_def socket_closed_def ws_onclose_def
        connect_def hook_defs Let_def)

lemma drop_and_retry_iter:
  assumes "wsRef s = Some ws" "\<not> falsy (cl_userId (handlers ws))" "hasWindow s" "timers s = []"
  shows "wsRef ((drop_and_retry ^^ Suc n) s) = Some \<lparr>readyState = CONNECTING, handlers = handlers ws\<rparr> \<and>
         hasWindow ((drop_and_retry ^^ Suc n) s) \<and> timers ((drop_and_retry ^^ Suc n) s) = []"
proof (induction n)
  case 0
  show ?case using drop_and_retry_step[OF assms] by simp
next
  case (Suc n)
  let ?s = "(drop_and_retry ^^ Suc n) s"
  have "wsRef ?s = Some \<lparr>readyState = CONNECTING, handlers = handlers ws\<rparr>"
    and "hasWindow ?s" and "timers ?s = []"
    using Suc by simp_all
  from drop_and_retry_step[OF this(1) _ this(2,3)] assms(2)
  show ?case by simp
qed

text \<open>
  Claim C3, as the code has it. Every run of \<open>ws.onclose\<close> leaves the hook disconnected
  and adds exactly one timeout, of 3000 milliseconds, for the \<open>connect\<close> of that socket,
  in whatever state it runs: the delay does not grow and no count of attempts stops it.
  So when the session in \<open>wsRef\<close> (opened for a user id) drops and the timeout fires, with
  a constructor that succeeds, a new socket is connecting, and this holds again after any
  number of such drops. The \<open>error\<close> handler of a socket schedules nothing by itself.
\<close>

theorem close_schedules_one_reconnect:
  "timers (ws_onclose c s) = timers s @ [ReconnectTimer 3000 c] \<and>
   \<not> isConnected (ws_onclose c s) \<and>
   timers (ws_onerror s) = timers s \<and>
   (wsRef s = Some ws \<longrightarrow>
      timers (socket_closed s) = timers s @ [ReconnectTimer 3000 (handlers ws)]) \<and>
   (wsRef s = Some ws \<and> \<not> falsy (cl_userId (handlers ws)) \<and> hasWindow s \<and> timers s = []
      \<longrightarrow> wsRef ((drop_and_retry ^^ Suc n) s) =
             Some \<lparr>readyState = CONNECTING, handlers = handlers ws\<rparr> \<and>
          timers ((drop_and_retry ^^ Suc n) s) = [])"
  using drop_and_retry_iter[of s ws n]
  by (auto simp: ws_onclose_def ws_onerror_def socket_closed_timers hook_defs Let_def)

theorem close_schedules_one_reconnect_witness:
  "timers (socket_closed demo_connected) = [ReconnectTimer 3000 demo_closure] \<and>
   isConnected (socket_closed demo_connected) = False \<and>
   wsRef (drop_and_retry (drop_and_retry (drop_and_retry demo_connected))) =
     Some \<lparr>readyState = CONNECTING, handlers = demo_closure\<rparr> \<and>
   timers (drop_and_retry (drop_and_retry (drop_and_retry demo_connected))) = []"
  using close_schedules_one_reconnect [where c = demo_closure and s = demo_connected
          and ws = "\<lparr>readyState = OPEN, handlers = demo_closure\<rparr>" and n = "Suc (Suc 0)"]
  by (simp add: demo_connected_def demo_state_def initial_state_def demo_closure_def falsy_def
        socket_closed_def ws_onclose_def hook_defs Let_def)

section \<open>Facts about the study-items map\<close>

lemma map_of_map_update:
  "map_of (map (\<lambda>(k', v'). if k' = k then (k', g v') else (k', v')) obj) x =
     (if x = k then map_option g (map_of obj k) else map_of obj x)"
  by (induction obj) auto

lemma map_fst_map_update:
  "map fst (map (\<lambda>(k', v'). if k' = k then (k', g v') else (k', v')) obj) = map fst obj"
  by (induction obj) auto

lemma onopen_item_skip:
  "courseId item = None \<or> fileKey item = None \<or> courseId item = Some [] \<or> fileKey item = Some []
     \<Longrightarrow> onopen_item acc item = Some acc"
  by (auto simp: onopen_item_def split: option.splits)

lemma onopen_item_push:
  assumes "courseId item = Some c" "fileKey item = Some f" "c \<noteq> []" "f \<noteq> []"
    and "c \<notin> set object_prototype_names"
  shows "\<exists>acc'. onopen_item acc item = Some acc' \<and>
           (\<forall>x. map_of acc' x =
              (if x = c then Some ((case map_of acc c of None \<Rightarrow> [] | Some fs \<Rightarrow> fs) @ [f])
               else map_of acc x)) \<and>
           (distinct (map fst acc) \<longrightarrow> distinct (map fst acc'))"
proof (cases "map_of acc c")
  case None
  then have notin: "c \<notin> fst ` set acc" by (simp add: map_of_eq_None_iff)
  let ?acc1 = "acc @ [(c, [])]"
  let ?acc' = "map (\<lambda>(k', v'). if k' = c then (k', v' @ [f]) else (k', v')) ?acc1"
  have l1: "map_of ?acc1 x = (if x = c then Some [] else map_of acc x)" for x
    using None by (simp add: map_add_def split: option.splits)
  have "onopen_item acc item = push_property ?acc1 c f"
    using None assms by (simp add: onopen_item_def property_truthy_def assign_property_def)
  also have "\<dots> = Some ?acc'"
    using l1[of c] by (simp add: push_property_def)
  finally have step: "onopen_item acc item = Some ?acc'" .
  have look: "map_of ?acc' x =
      (if x = c then Some ((case map_of acc c of None \<Rightarrow> [] | Some fs \<Rightarrow> fs) @ [f])
       else map_of acc x)" for x
    using None by (simp only: map_of_map_update l1) simp
  have dist: "distinct (map fst acc) \<longrightarrow> distinct (map fst ?acc')"
    using notin by (simp only: map_fst_map_update) simp
  from step look dist show ?thesis by blast
next
  case (Some fs)
  let ?acc' = "map (\<lambda>(k', v'). if k' = c then (k', v' @ [f]) else (k', v')) acc"
  have step: "onopen_item acc item = Some ?acc'"
    using Some assms by (simp add: onopen_item_def property_truthy_def push_property_def)
  have look: "map_of ?acc' x =
      (if x = c then Some ((case map_of acc c of None \<Rightarrow> [] | Some fs \<Rightarrow> fs) @ [f])
       else map_of acc x)" for x
    using Some by (simp only: map_of_map_update) simp
  have dist: "distinct (map fst acc) \<longrightarrow> distinct (map fst ?acc')"
    by (simp only: map_fst_map_update) simp
  from step look dist show ?thesis by blast
qed

lemma linked_fileKeys_Nil: "linked_fileKeys [] c = []"
  by (simp add: linked_fileKeys_def map_filter_simps)

lemma linked_fileKeys_Cons:
  "linked_fileKeys (item # cart) c =
     (if courseId item = Some c \<and> c \<noteq> [] \<and> fileKey item \<noteq> Some [] \<and> fileKey item \<noteq> None
      then the (fileKey item) # linked_fileKeys cart c else linked_fileKeys cart c)"
  by (auto simp: linked_fileKeys_def map_filter_simps split: option.splits)

lemma linked_eq_spec:
  "\<forall>item\<in>set cart. courseId item \<noteq> Some [] \<and> fileKey item \<noteq> Some [] \<Longrightarrow>
     linked_fileKeys cart c = spec_fileKeys cart c"
  by (induction cart)
     (auto simp: linked_fileKeys_def spec_fileKeys_def map_filter_simps split: option.splits)

lemma forEach_onopen_item:
  assumes "\<forall>item\<in>set cart. \<forall>c. courseId item = Some c \<longrightarrow> c \<notin> set object_prototype_names"
  shows "\<exists>m. forEach onopen_item cart acc = Some m \<and>
           (\<forall>c. map_of m c =
              (case map_of acc c of
                 None \<Rightarrow> if linked_fileKeys cart c = [] then None else Some (linked_fileKeys cart c)
               | Some fs \<Rightarrow> Some (fs @ linked_fileKeys cart c))) \<and>
           (distinct (map fst acc) \<longrightarrow> distinct (map fst m))"
  using assms
proof (induction cart arbitrary: acc)
  case Nil
  show ?case by (auto simp: linked_fileKeys_Nil split: option.splits)
next
  case (Cons item cart)
  have rest: "\<forall>item\<in>set cart. \<forall>c. courseId item = Some c \<longrightarrow> c \<notin> set object_prototype_names"
    using Cons.prems by simp
  show ?case
  proof (cases "courseId item = None \<or> fileKey item = None \<or> courseId item = Some [] \<or> fileKey item = Some []")
    case True
    then have step: "onopen_item acc item = Some acc" by (rule onopen_item_skip)
    have same: "linked_fileKeys (item # cart) c = linked_fileKeys cart c" for c
      using True by (auto simp: linked_fileKeys_Cons)
    from Cons.IH[OF rest, of acc] obtain m where
      m: "forEach onopen_item cart acc = Some m" and
      mlook: "\<And>x. map_of m x =
              (case map_of acc x of
                 None \<Rightarrow> if linked_fileKeys cart x = [] then None else Some (linked_fileKeys cart x)
               | Some fs \<Rightarrow> Some (fs @ linked_fileKeys cart x))" and
      mdist: "distinct (map fst acc) \<longrightarrow> distinct (map fst m)"
      by blast
    have "forEach onopen_item (item # cart) acc = Some m"
      using step m by simp
    moreover have "map_of m x =
              (case map_of acc x of
                 None \<Rightarrow> if linked_fileKeys (item # cart) x = [] then None
                         else Some (linked_fileKeys (item # cart) x)
               | Some fs \<Rightarrow> Some (fs @ linked_fileKeys (item # cart) x))" for x
      by (simp only: same mlook)
    ultimately show ?thesis using mdist by blast
  next
    case False
    then obtain c f where cf: "courseId item = Some c" "fileKey item = Some f" "c \<noteq> []" "f \<noteq> []"
      by auto
    have np: "c \<notin> set object_prototype_names" using Cons.prems cf(1) by simp
    from onopen_item_push[OF cf np, of acc] obtain acc' where
      step: "onopen_item acc item = Some acc'" and
      look: "\<And>x. map_of acc' x =
              (if x = c then Some ((case map_of acc c of None \<Rightarrow> [] | Some fs \<Rightarrow> fs) @ [f])
               else map_of acc x)" and
      dist: "distinct (map fst acc) \<longrightarrow> distinct (map fst acc')"
      by blast
    from Cons.IH[OF rest, of acc'] obtain m where
      m: "forEach onopen_item cart acc' = Some m" and
      mlook: "\<And>x. map_of m x =
              (case map_of acc' x of
                 None \<Rightarrow> if linked_fileKeys cart x = [] then None else Some (linked_fileKeys cart x)
               | Some fs \<Rightarrow> Some (fs @ linked_fileKeys cart x))" and
      mdist: "distinct (map fst acc') \<longrightarrow> distinct (map fst m)"
      by blast
    have "map_of m x =
              (case map_of acc x of
                 None \<Rightarrow> if linked_fileKeys (item # cart) x = [] then None
                         else Some (linked_fileKeys (item # cart) x)
               | Some fs \<Rightarrow> Some (fs @ linked_fileKeys (item # cart) x))" for x
      using cf by (auto simp: mlook look linked_fileKeys_Cons split: option.splits)
    with m step dist mdist show ?thesis by simp
  qed
qed

lemma forEach_filter_skip:
  assumes "\<And>acc x. \<not> P x \<Longrightarrow> f acc x = Some acc"
  shows "forEach f (filter P xs) acc = forEach f xs acc"
  by (induction xs arbitrary: acc) (auto simp: assms split: option.splits)

text \<open>The claim C10 as stated fails. A cart item that has both fields, the \<open>courseId\<close> being
  the empty string, is left out of the map, while the map of the specification lists its
  file key under that course. And a cart item whose \<open>courseId\<close> is the name of an inherited
  property makes the loop throw (the property read is truthy, so no array is stored, and
  it has no \<open>push\<close>): no map is built and the payload is abandoned in the \<open>catch\<close> block.\<close>

theorem studyItems_built_counterexample:
  "courseId blank_item = Some '''' \<and>
   fileKey blank_item = Some ''1-f1'' \<and>
   spec_fileKeys [blank_item] '''' = [''1-f1''] \<and>
   forEach onopen_item [blank_item] [] = Some [] \<and>
   courseId inherited_item = Some ''constructor'' \<and>
   fileKey inherited_item = Some ''1-f1'' \<and>
   spec_fileKeys [inherited_item] ''constructor'' = [''1-f1''] \<and>
   forEach onopen_item [inherited_item] [] = None"
  by (simp add: blank_item_def inherited_item_def demo_item_def spec_fileKeys_def
        map_filter_simps onopen_item_def property_truthy_def object_prototype_names_def
        push_property_def)

text \<open>
  Claim C10, as the code has it. For every cart in which no \<open>courseId\<close> is the name of a
  property inherited from \<open>Object.prototype\<close>, each of the three loops builds the same
  map: under every course exactly the file keys of the items whose \<open>courseId\<close> is that
  course and whose \<open>courseId\<close> and \<open>fileKey\<close> are both present and not the empty string, in cart
  order, and no entry for a course without such an item; every key occurs once. Items
  that miss a field contribute nothing: dropping them from the cart gives the same map.
  Where no field is the empty string this is the map of the specification. The map is
  the \<open>studyItems\<close> of the message built from a store holding that cart.
\<close>

theorem studyItems_built:
  assumes "\<forall>item\<in>set cart. \<forall>c. courseId item = Some c \<longrightarrow> c \<notin> set object_prototype_names"
  shows "\<exists>m. forEach onopen_item cart [] = Some m \<and>
           forEach interval_item cart [] = Some m \<and>
           forEach storage_item cart [] = Some m \<and>
           distinct (map fst m) \<and>
           (\<forall>c. map_of m c =
              (if linked_fileKeys cart c = [] then None else Some (linked_fileKeys cart c))) \<and>
           forEach onopen_item
             (filter (\<lambda>item. courseId item \<noteq> None \<and> fileKey item \<noteq> None) cart) [] = Some m \<and>
           ((\<forall>item\<in>set cart. courseId item \<noteq> Some [] \<and> fileKey item \<noteq> Some []) \<longrightarrow>
              (\<forall>c. linked_fileKeys cart c = spec_fileKeys cart c)) \<and>
           (st ''course-progress'' = Some t \<and> t \<noteq> [] \<and> parse_progress J t = Some p \<and>
            st ''study-cart'' = Some ct \<and> ct \<noteq> [] \<and> parse_cart J ct = Some cart \<longrightarrow>
              onopen_payload J uname st = Payload (SyncFullProgress p m uname))"
proof -
  from forEach_onopen_item[OF assms, of "[]"] obtain m where
    m: "forEach onopen_item cart [] = Some m" and
    look: "\<And>c. map_of m c =
              (if linked_fileKeys cart c = [] then None else Some (linked_fileKeys cart c))" and
    dist: "distinct (map fst m)"
    by auto
  have filt: "forEach onopen_item
             (filter (\<lambda>item. courseId item \<noteq> None \<and> fileKey item \<noteq> None) cart) [] = Some m"
    using m by (subst forEach_filter_skip) (auto intro: onopen_item_skip)
  have pay: "onopen_payload J uname st = Payload (SyncFullProgress p m uname)"
    if "st ''course-progress'' = Some t" "t \<noteq> []" "parse_progress J t = Some p"
       "st ''study-cart'' = Some ct" "ct \<noteq> []" "parse_cart J ct = Some cart"
    using that m by (simp add: onopen_payload_def falsy_def)
  have spec: "(\<forall>item\<in>set cart. courseId item \<noteq> Some [] \<and> fileKey item \<noteq> Some []) \<longrightarrow>
              (\<forall>c. linked_fileKeys cart c = spec_fileKeys cart c)"
    using linked_eq_spec[of cart] by blast
  show ?thesis
    using m look dist filt pay spec by (auto simp: onopen_item_eq)
qed

theorem studyItems_built_witness:
  "forEach onopen_item demo_cart [] =
     Some [(''cs101'', [''1-f1'', ''1-f2'']), (''ma201'', [''2-g1''])] \<and>
   linked_fileKeys demo_cart ''cs101'' = [''1-f1'', ''1-f2''] \<and>
   linked_fileKeys demo_cart ''ma201'' = [''2-g1''] \<and>
   linked_fileKeys demo_cart ''ph301'' = []"
proof -
  have h: "\<forall>item\<in>set demo_cart. \<forall>c. courseId item = Some c \<longrightarrow> c \<notin> set object_prototype_names"
    by (simp add: demo_cart_def demo_item_def object_prototype_names_def)
  show ?thesis
    using studyItems_built [OF h]
    by (simp add: demo_cart_def demo_item_def onopen_item_def property_truthy_def
          assign_property_def push_property_def object_prototype_names_def
          linked_fileKeys_def map_filter_simps)
qed

end
